theory Spec2Isabelle
  imports Complex_Main "HOL-Library.Sublist" "HOL-Library.Multiset"
begin

section \<open>JavaScript strings and values\<close>

text \<open>
  Strings are modelled as lists of characters. The sources only ever inspect ASCII
  characters (the hash sign, hexadecimal digits, ASCII letters, blanks, line breaks), so
  the character classes below are the ASCII parts of the JavaScript classes
  \<^verbatim>\<open>\s\<close>, \<^verbatim>\<open>\w\<close> and of \<^verbatim>\<open>toLowerCase\<close>.
  A request parameter or an object field that may be absent is a \<open>string option\<close>:
  \<open>None\<close> is JavaScript's \<^verbatim>\<open>undefined\<close>.
\<close>

definition LF :: char where
  "LF = CHR 0x0A"

definition CR :: char where
  "CR = CHR 0x0D"

definition isSpace :: "char \<Rightarrow> bool" where
  "isSpace c = (c \<in> set [CHR '' '', CHR 0x09, CHR 0x0A, CHR 0x0B, CHR 0x0C, CHR 0x0D])"

definition isHex :: "char \<Rightarrow> bool" where
  "isHex c = (c \<in> set ''0123456789ABCDEFabcdef'')"

definition isWord :: "char \<Rightarrow> bool" where
  "isWord c = (c \<in> set ''abcdefghijklmnopqrstuvwxyzABCDEFGHIJKLMNOPQRSTUVWXYZ0123456789_'')"

definition lowerChar :: "char \<Rightarrow> char" where
  "lowerChar c = (case map_of (zip ''ABCDEFGHIJKLMNOPQRSTUVWXYZ'' ''abcdefghijklmnopqrstuvwxyz'') c of
                    Some l \<Rightarrow> l | None \<Rightarrow> c)"

definition toLowerCase :: "string \<Rightarrow> string" where
  "toLowerCase s = map lowerChar s"

definition trim :: "string \<Rightarrow> string" where
  "trim s = rev (dropWhile isSpace (rev (dropWhile isSpace s)))"

text \<open>\<^verbatim>\<open>s.includes(w)\<close>: \<open>w\<close> occurs in \<open>s\<close> as a contiguous substring.\<close>

fun includes_str :: "string \<Rightarrow> string \<Rightarrow> bool" where
  "includes_str [] w = (w = [])"
| "includes_str (c # cs) w = (prefix w (c # cs) \<or> includes_str cs w)"

text \<open>\<^verbatim>\<open>s.split(' ')\<close>: the pieces between single blanks, empty pieces included.\<close>

fun split_on :: "char \<Rightarrow> string \<Rightarrow> string \<Rightarrow> string list" where
  "split_on d acc [] = [rev acc]"
| "split_on d acc (c # cs) = (if c = d then rev acc # split_on d [] cs else split_on d (c # acc) cs)"

definition split_blank :: "string \<Rightarrow> string list" where
  "split_blank s = split_on (CHR '' '') [] s"

text \<open>\<^verbatim>\<open>parts.join(' ')\<close>.\<close>

fun join_blank :: "string list \<Rightarrow> string" where
  "join_blank [] = []"
| "join_blank [s] = s"
| "join_blank (s # t # ts) = s @ '' '' @ join_blank (t # ts)"

text \<open>Truthiness of an optional string: \<^verbatim>\<open>undefined\<close> and \<^verbatim>\<open>''\<close> are falsy.\<close>

fun truthy :: "string option \<Rightarrow> bool" where
  "truthy None = False"
| "truthy (Some s) = (s \<noteq> [])"

text \<open>\<^verbatim>\<open>x || d\<close> for an optional string \<open>x\<close> and a string \<open>d\<close>.\<close>

fun or_else :: "string option \<Rightarrow> string \<Rightarrow> string" where
  "or_else None d = d"
| "or_else (Some s) d = (if s = [] then d else s)"

text \<open>\<^verbatim>\<open>[...].filter(Boolean)\<close> on a list of optional strings.\<close>

definition filter_Boolean :: "string option list \<Rightarrow> string list" where
  "filter_Boolean xs = map (\<lambda>x. or_else x []) (filter truthy xs)"

text \<open>
  \<^verbatim>\<open>[...new Set(xs)]\<close>: the distinct elements in the order of their first
  insertion.
\<close>

fun uniq_acc :: "'a list \<Rightarrow> 'a list \<Rightarrow> 'a list" where
  "uniq_acc seen [] = []"
| "uniq_acc seen (x # xs) = (if x \<in> set seen then uniq_acc seen xs else x # uniq_acc (x # seen) xs)"

definition new_Set :: "'a list \<Rightarrow> 'a list" where
  "new_Set xs = uniq_acc [] xs"

section \<open>Suggestion extractor\<close>

subsection \<open>extractHeading\<close>

text \<open>
  \<^verbatim>\<open>aiSuggestions.match(/^#\s+([^\n]+)|^##\s+([^\n]+)|^(.+?)\n/)\<close>. The
  expression has no \<^verbatim>\<open>m\<close> flag, so every alternative is anchored at the start
  of the text. \<open>heading_tail k rest\<close> is the backtracking of
  \<^verbatim>\<open>\s+([^\n]+)\<close> on \<open>rest\<close>: the blank run gives back characters,
  longest first, until the group finds a character other than a line feed.
\<close>

fun heading_tail :: "nat \<Rightarrow> string \<Rightarrow> string option" where
  "heading_tail 0 rest = None"
| "heading_tail (Suc k) rest =
     (case drop (Suc k) rest of
        [] \<Rightarrow> heading_tail k rest
      | c # cs \<Rightarrow> if c \<noteq> LF then Some (takeWhile (\<lambda>x. x \<noteq> LF) (c # cs)) else heading_tail k rest)"

definition heading_group :: "string \<Rightarrow> string option" where
  "heading_group rest = heading_tail (length (takeWhile isSpace rest)) rest"

text \<open>The third alternative: a non-empty run without line terminators, then a line feed.\<close>

definition first_line_group :: "string \<Rightarrow> string option" where
  "first_line_group s =
     (let l = takeWhile (\<lambda>c. c \<noteq> LF \<and> c \<noteq> CR) s
      in if l \<noteq> [] \<and> take 1 (drop (length l) s) = [LF] then Some l else None)"

text \<open>The match object, reduced to its three capture groups.\<close>

definition headingMatch :: "string \<Rightarrow> (string option \<times> string option \<times> string option) option" where
  "headingMatch s =
     (case (case s of c # rest \<Rightarrow> if c = CHR ''#'' then heading_group rest else None | [] \<Rightarrow> None) of
        Some g \<Rightarrow> Some (Some g, None, None)
      | None \<Rightarrow>
         (case (case s of c # d # rest \<Rightarrow> if c = CHR ''#'' \<and> d = CHR ''#'' then heading_group rest else None
                        | _ \<Rightarrow> None) of
            Some g \<Rightarrow> Some (None, Some g, None)
          | None \<Rightarrow>
             (case first_line_group s of
                Some g \<Rightarrow> Some (None, None, Some g)
              | None \<Rightarrow> None)))"

definition extractHeading :: "string \<Rightarrow> string" where
  "extractHeading aiSuggestions =
     (case headingMatch aiSuggestions of
        Some (g1, g2, g3) \<Rightarrow>
          trim (if truthy g1 then or_else g1 []
                else if truthy g2 then or_else g2 []
                else or_else g3 ''Design Recommendations'')
      | None \<Rightarrow> ''Design Recommendations'')"

subsection \<open>Colour palette\<close>

text \<open>
  \<^verbatim>\<open>text.match(/#([A-Fa-f0-9]{6}|[A-Fa-f0-9]{3})/g) || []\<close>: the matches
  from left to right, the six-digit alternative first, the scan resuming after a match.
\<close>

fun hexCodeMatches :: "string \<Rightarrow> string list" where
  "hexCodeMatches [] = []"
| "hexCodeMatches (c # cs) =
     (if c = CHR ''#'' \<and> 6 \<le> length cs \<and> list_all isHex (take 6 cs)
        then (c # take 6 cs) # hexCodeMatches (drop 6 cs)
      else if c = CHR ''#'' \<and> 3 \<le> length cs \<and> list_all isHex (take 3 cs)
        then (c # take 3 cs) # hexCodeMatches (drop 3 cs)
      else hexCodeMatches cs)"

definition colorWords :: "string list" where
  "colorWords = [''red'', ''blue'', ''green'', ''yellow'', ''purple'', ''orange'', ''pink'',
                 ''brown'', ''gray'', ''black'', ''white'']"

text \<open>
  One attempt of \<^verbatim>\<open>(red|blue|...)\b\<close> at the head of \<open>s\<close>, ignoring case:
  the first colour word that is a prefix of \<open>s\<close> and is followed by a non-word
  character or by the end of the text. The result is the matched text as it stands in \<open>s\<close>.
\<close>

definition colorWordAt :: "string \<Rightarrow> string option" where
  "colorWordAt s =
     map_option (\<lambda>w. take (length w) s)
       (find (\<lambda>w. toLowerCase (take (length w) s) = w \<and>
                   (case drop (length w) s of [] \<Rightarrow> True | c # _ \<Rightarrow> \<not> isWord c))
             colorWords)"

text \<open>
  The global scan of \<^verbatim>\<open>/\b(red|...)\b/gi\<close>. \<open>skip\<close> counts the characters
  of the current match still to be passed over; \<open>pw\<close> tells whether the previous
  character is a word character (then there is no word boundary here).
\<close>

fun colorNameScan :: "nat \<Rightarrow> bool \<Rightarrow> string \<Rightarrow> string list" where
  "colorNameScan skip pw [] = []"
| "colorNameScan (Suc skip) pw (c # cs) = colorNameScan skip (isWord c) cs"
| "colorNameScan 0 pw (c # cs) =
     (if pw then colorNameScan 0 (isWord c) cs
      else (case colorWordAt (c # cs) of
              Some m \<Rightarrow> m # colorNameScan (length m - 1) (isWord c) cs
            | None \<Rightarrow> colorNameScan 0 (isWord c) cs))"

definition colorNameMatches :: "string \<Rightarrow> string list" where
  "colorNameMatches s = colorNameScan 0 False s"

definition colorMap :: "(string \<times> string list) list" where
  "colorMap =
    [(''red'', [''#FF0000'', ''#DC143C'', ''#B22222'']),
     (''blue'', [''#0000FF'', ''#1E90FF'', ''#4169E1'']),
     (''green'', [''#008000'', ''#32CD32'', ''#3CB371'']),
     (''yellow'', [''#FFD700'', ''#FFFF00'', ''#FFA500'']),
     (''purple'', [''#800080'', ''#8A2BE2'', ''#9400D3'']),
     (''orange'', [''#FFA500'', ''#FF4500'', ''#FF6347'']),
     (''pink'', [''#FFC0CB'', ''#FF69B4'', ''#FF1493'']),
     (''brown'', [''#8B4513'', ''#A52A2A'', ''#D2691E'']),
     (''gray'', [''#808080'', ''#A9A9A9'', ''#696969'']),
     (''black'', [''#000000'']),
     (''white'', [''#FFFFFF''])]"

definition generateColorFromNames :: "string list \<Rightarrow> string list" where
  "generateColorFromNames colorNames =
     concat (map (\<lambda>name. case map_of colorMap name of Some cs \<Rightarrow> cs | None \<Rightarrow> []) colorNames)"

definition rotateHue :: "string \<Rightarrow> int \<Rightarrow> string" where
  "rotateHue hex degrees = hex"

definition adjustColorBrightness :: "string \<Rightarrow> real \<Rightarrow> string" where
  "adjustColorBrightness hex percent = hex"

definition generateComplementaryColors :: "string \<Rightarrow> string list" where
  "generateComplementaryColors baseColor =
     [adjustColorBrightness baseColor (2 / 10), adjustColorBrightness baseColor (- (2 / 10))]"

definition generateAnalogousColors :: "string \<Rightarrow> string list" where
  "generateAnalogousColors baseColor = [rotateHue baseColor 30, rotateHue baseColor (- 30)]"

definition generateTriadicColors :: "string \<Rightarrow> string list" where
  "generateTriadicColors baseColor = [rotateHue baseColor 120, rotateHue baseColor (- 120)]"

text \<open>
  The key of \<^verbatim>\<open>colorTheoryMappings\<close> that
  \<^verbatim>\<open>Math.floor(Math.random() * 3)\<close> selects; the random draw is an argument
  of the model.
\<close>

datatype scheme = Complementary | Analogous | Triadic

fun colorTheoryMappings :: "scheme \<Rightarrow> string \<Rightarrow> string list" where
  "colorTheoryMappings Complementary baseColor = generateComplementaryColors baseColor"
| "colorTheoryMappings Analogous baseColor = generateAnalogousColors baseColor"
| "colorTheoryMappings Triadic baseColor = generateTriadicColors baseColor"

text \<open>
  \<^verbatim>\<open>nlpUtils.extractAdvancedColorPalette\<close> (server.js and the third variant).
  \<open>allColors_found\<close> is the array \<^verbatim>\<open>allColors\<close> before the colour-theory
  step: hex codes, then the input colour, then the colours of the named colours, without
  repetitions.
\<close>

definition allColors_found :: "string \<Rightarrow> string option \<Rightarrow> string list" where
  "allColors_found aiSuggestions inputColor =
     (let hexCodes = hexCodeMatches aiSuggestions;
          colorNames = map toLowerCase (colorNameMatches aiSuggestions)
      in new_Set (hexCodes @ (if truthy inputColor then [or_else inputColor []] else [])
                  @ generateColorFromNames colorNames))"

definition extractAdvancedColorPalette :: "scheme \<Rightarrow> string \<Rightarrow> string option \<Rightarrow> string list" where
  "extractAdvancedColorPalette generativeScheme aiSuggestions inputColor =
     (let allColors = allColors_found aiSuggestions inputColor
      in take 5 (if length allColors < 3 \<and> 0 < length allColors
                 then allColors @ colorTheoryMappings generativeScheme (allColors ! 0)
                 else allColors))"

text \<open>\<^verbatim>\<open>extractColorPalette\<close> of the first variant in part_000: hex codes only.\<close>

definition extractColorPalette :: "string \<Rightarrow> string list" where
  "extractColorPalette aiSuggestions = take 3 (hexCodeMatches aiSuggestions)"

section \<open>Result items\<close>

text \<open>
  A result item as the adapters build it. Every field is optional, since an adapter
  copies fields of the upstream object that may be missing; \<open>imageUrl\<close> is the field
  \<^verbatim>\<open>image\<close> of the sources (renamed: \<open>image\<close> is a constant of the library),
  \<open>ident\<close> is the field \<^verbatim>\<open>id\<close>. Field values are strings when present.
\<close>

record item =
  imageUrl :: "string option"
  title :: "string option"
  source :: "string option"
  url :: "string option"
  link :: "string option"
  author :: "string option"
  designer :: "string option"
  colors :: "string list"
  format :: "string option"
  isPremium :: bool
  ident :: "string option"
  snippet :: "string option"
  category :: "string option"

definition blank_item :: item where
  "blank_item = \<lparr> imageUrl = None, title = None, source = None, url = None, link = None,
                  author = None, designer = None, colors = [], format = None, isPremium = False,
                  ident = None, snippet = None, category = None \<rparr>"

datatype js_error = TypeError | NetworkError | TimeoutError | HttpStatusError nat | OtherError

section \<open>Deduplication\<close>

subsection \<open>updatedserver.txt: the uniqueImages loop\<close>

text \<open>
  \<^verbatim>\<open>allImages.forEach(img => { if (!imageUrls.has(img.image)) { imageUrls.add(img.image);
  uniqueImages.push(img); } })\<close>. The state of the loop is the pair of the array
  \<^verbatim>\<open>uniqueImages\<close> and the set \<^verbatim>\<open>imageUrls\<close>; a missing image is the
  key \<open>None\<close>, which the set holds like any other value.
\<close>

fun uniqueImages_loop :: "item list \<Rightarrow> item list \<times> string option set \<Rightarrow> item list \<times> string option set" where
  "uniqueImages_loop [] st = st"
| "uniqueImages_loop (img # rest) (uniqueImages, imageUrls) =
     (if imageUrl img \<notin> imageUrls
      then uniqueImages_loop rest (uniqueImages @ [img], insert (imageUrl img) imageUrls)
      else uniqueImages_loop rest (uniqueImages, imageUrls))"

definition uniqueImages_of :: "item list \<Rightarrow> item list" where
  "uniqueImages_of allImages = fst (uniqueImages_loop allImages ([], {}))"

subsection \<open>part_000, third variant: filterDuplicates\<close>

text \<open>
  \<^verbatim>\<open>images.filter(img => { if (!img.image || seenUrls.has(img.image)) return false;
  seenUrls.add(img.image); return true; })\<close>. The set \<^verbatim>\<open>seenUrls\<close> is shared by
  all calls of one request, so the model takes it and returns it updated.
\<close>

fun filterDuplicates :: "item list \<Rightarrow> string option set \<Rightarrow> item list \<times> string option set" where
  "filterDuplicates [] seenUrls = ([], seenUrls)"
| "filterDuplicates (img # images) seenUrls =
     (if \<not> truthy (imageUrl img) \<or> imageUrl img \<in> seenUrls
      then filterDuplicates images seenUrls
      else (let (kept, seen') = filterDuplicates images (insert (imageUrl img) seenUrls)
            in (img # kept, seen')))"

text \<open>\<^verbatim>\<open>{ ...img, category: c }\<close> and \<^verbatim>\<open>{ ...img, category: c, format: f }\<close>.\<close>

definition with_category :: "string \<Rightarrow> item \<Rightarrow> item" where
  "with_category c img = img\<lparr>category := Some c\<rparr>"

definition with_category_format :: "string \<Rightarrow> string \<Rightarrow> item \<Rightarrow> item" where
  "with_category_format c f img = img\<lparr>category := Some c, format := Some f\<rparr>"

text \<open>
  The results of the fan-out of the third variant, in the order in which the handler
  hands them to \<^verbatim>\<open>filterDuplicates\<close>.
\<close>

record fanout_results =
  designPlatformsResults :: "item list"
  enhancedResults :: "item list"
  colorResults :: "item list"
  freepikMainResults :: "item list"
  freepikColorResults :: "item list"
  freepikVectorResults :: "item list"
  freepikPsdResults :: "item list"
  freepikAIResults :: "item list"

text \<open>The order in which the items reach the shared set.\<close>

definition concatenation_order :: "fanout_results \<Rightarrow> item list" where
  "concatenation_order r =
     designPlatformsResults r @ enhancedResults r @ colorResults r @ freepikMainResults r
     @ freepikColorResults r @ freepikVectorResults r @ freepikPsdResults r @ freepikAIResults r"

text \<open>
  The six calls of \<^verbatim>\<open>filterDuplicates\<close> with the shared set threaded through them;
  the result is the list of the six filtered arrays, before they are tagged.
\<close>

definition filtered_groups :: "fanout_results \<Rightarrow> item list list" where
  "filtered_groups r =
     (let (combined, s1) = filterDuplicates (designPlatformsResults r @ enhancedResults r @ colorResults r) {};
          (main, s2) = filterDuplicates (freepikMainResults r) s1;
          (color, s3) = filterDuplicates (freepikColorResults r) s2;
          (vector, s4) = filterDuplicates (freepikVectorResults r) s3;
          (psd, s5) = filterDuplicates (freepikPsdResults r) s4;
          (ai, s6) = filterDuplicates (freepikAIResults r) s5
      in [combined, main, color, vector, psd, ai])"

definition allImages_deduplicated :: "fanout_results \<Rightarrow> item list" where
  "allImages_deduplicated r =
     (case filtered_groups r of
        [combined, main, color, vector, psd, ai] \<Rightarrow>
          map (with_category ''Combined Inspiration'') combined
          @ map (with_category ''Downloadable Design Resources'') main
          @ map (with_category ''Downloadable Color Inspiration'') color
          @ map (with_category_format ''Downloadable Vector Resources'' ''vector'') vector
          @ map (with_category_format ''Downloadable PSD Templates'' ''psd'') psd
          @ map (with_category_format ''AI Generated Designs'' ''AI Image'') ai
      | _ \<Rightarrow> [])"

section \<open>Sorting (updatedserver.txt)\<close>









section \<open>Requests and query construction\<close>

text \<open>
  The query parameters the three \<^verbatim>\<open>/search\<close> handlers destructure from
  \<^verbatim>\<open>req.query\<close>; an absent parameter is \<open>None\<close>.
\<close>

record request =
  req_q :: "string option"
  req_industry :: "string option"
  req_font :: "string option"
  req_color :: "string option"
  req_designStyle :: "string option"
  req_audience :: "string option"
  req_purpose :: "string option"
  req_imageSize :: "string option"
  req_imageType :: "string option"
  req_sortBy :: "string option"
  req_ai :: "string option"
  req_platforms :: "string option"

text \<open>\<^verbatim>\<open>a || b\<close> on optional strings.\<close>

definition js_or :: "string option \<Rightarrow> string option \<Rightarrow> string option" where
  "js_or a b = (if truthy a then a else b)"

text \<open>\<^verbatim>\<open>colorPalette.length > 0 ? colorPalette[0] : ''\<close>.\<close>

definition first_color :: "string list \<Rightarrow> string" where
  "first_color colorPalette = (case colorPalette of [] \<Rightarrow> [] | c # _ \<Rightarrow> c)"

subsection \<open>server.js (and the first variant of part_000)\<close>

record queries_S =
  industryFontQuery :: string
  colorStyleQuery :: string
  topIndustriesQuery :: string
  mainFreepikQuery :: string
  colorFreepikQuery :: string
  vectorFreepikQuery :: string
  psdFreepikQuery :: string

text \<open>
  The template literals of server.js, lines 389 to 395 and 411 to 412. \<open>q\<close> is the
  validated query string; every optional field is guarded by \<^verbatim>\<open>|| ''\<close>.
\<close>

definition buildQueries_S :: "string \<Rightarrow> request \<Rightarrow> string list \<Rightarrow> queries_S" where
  "buildQueries_S q r colorPalette =
    \<lparr> industryFontQuery =
        q @ '' '' @ or_else (req_industry r) [] @ '' '' @ or_else (req_font r) [] @ '' design inspiration'',
      colorStyleQuery =
        q @ '' '' @ or_else (req_designStyle r) [] @ '' '' @ or_else (req_color r) [] @ '' design inspiration'',
      topIndustriesQuery = ''Top industries using '' @ or_else (req_designStyle r) [] @ '' design'',
      mainFreepikQuery = trim (q @ '' '' @ or_else (req_industry r) [] @ '' '' @ or_else (req_designStyle r) []),
      colorFreepikQuery =
        (if 0 < length colorPalette then trim (q @ '' '' @ first_color colorPalette)
         else trim (q @ '' '' @ or_else (req_color r) [])),
      vectorFreepikQuery = trim (q @ '' '' @ or_else (req_designStyle r) []),
      psdFreepikQuery = trim (q @ '' '' @ or_else (req_industry r) []) \<rparr>"

definition queries_S_list :: "queries_S \<Rightarrow> string list" where
  "queries_S_list qs =
     [industryFontQuery qs, colorStyleQuery qs, topIndustriesQuery qs, mainFreepikQuery qs,
      colorFreepikQuery qs, vectorFreepikQuery qs, psdFreepikQuery qs]"

subsection \<open>part_000, third variant\<close>

record queries_B =
  enhancedQuery :: string
  colorQuery :: string
  mainFreepikQuery_B :: string
  colorFreepikQuery_B :: string
  vectorQuery_B :: string
  psdQuery_B :: string
  aiPrompt_B :: string
  pinterestMainQuery :: string
  pinterestAlternateQuery :: string

text \<open>
  \<^verbatim>\<open>[q, industry, ...].filter(Boolean).join(' ')\<close>, lines 928 to 946, 977, 978 and
  984, and the two Pinterest queries that \<^verbatim>\<open>fetchDesignPlatformsInspiration\<close> and
  \<^verbatim>\<open>fetchPinterestViaGoogle\<close> build from the same fields (lines 704, 705, 665).
\<close>

definition buildQueries_B :: "string \<Rightarrow> request \<Rightarrow> string list \<Rightarrow> queries_B" where
  "buildQueries_B q r colorPalette =
    (let paletteColor = js_or (req_color r) (Some (first_color colorPalette)) in
    \<lparr> enhancedQuery = join_blank (filter_Boolean
        [Some q, req_industry r, req_font r, req_designStyle r, Some ''design inspiration'']),
      colorQuery = join_blank (filter_Boolean
        [Some q, req_industry r, paletteColor, req_designStyle r, Some ''design'']),
      mainFreepikQuery_B = join_blank (filter_Boolean [Some q, req_industry r, req_designStyle r, req_font r]),
      colorFreepikQuery_B = join_blank (filter_Boolean [Some q, req_industry r, paletteColor]),
      vectorQuery_B = join_blank (filter_Boolean [Some q, req_designStyle r, Some ''vector'']),
      psdQuery_B = join_blank (filter_Boolean [Some q, req_industry r, Some ''template'']),
      aiPrompt_B = join_blank (filter_Boolean
        [Some q, req_industry r, req_designStyle r, req_font r, req_color r]),
      pinterestMainQuery = join_blank (filter_Boolean
        [Some q, req_industry r, req_designStyle r, req_font r, Some ''design'']) @ '' site:pinterest.com'',
      pinterestAlternateQuery = join_blank (filter_Boolean
        [Some q, req_industry r, Some ''inspiration'']) @ '' site:pinterest.com'' \<rparr>)"

definition queries_B_list :: "queries_B \<Rightarrow> string list" where
  "queries_B_list qs =
     [enhancedQuery qs, colorQuery qs, mainFreepikQuery_B qs, colorFreepikQuery_B qs, vectorQuery_B qs,
      psdQuery_B qs, aiPrompt_B qs, pinterestMainQuery qs, pinterestAlternateQuery qs]"

subsection \<open>updatedserver.txt\<close>




section \<open>Provider adapters\<close>

text \<open>
  What an upstream HTTP call gives back to the adapter. The HTTP client (axios) throws on
  a network failure, on a timeout and on a status outside 2xx; otherwise the adapter
  reads the parsed body. \<open>'p listing\<close> is the field of the body that should hold the
  array of results: it may be missing (or the body itself may be), it may hold something
  that is not an array (a number, a text, an object without the methods and the length of
  an array), or it holds an array whose entries are objects or \<^verbatim>\<open>null\<close>.
\<close>

datatype 'p http_result = Threw js_error | Response 'p

datatype 'e listing = Missing | NotAnArray | Entries "'e option list"

text \<open>
  \<^verbatim>\<open>try { body } catch (error) { console.error(...); return []; }\<close>: whatever the
  body throws, the adapter resolves to the empty array.
\<close>

fun catch_empty :: "js_error + 'a list \<Rightarrow> js_error + 'a list" where
  "catch_empty (Inl e) = Inr []"
| "catch_empty (Inr v) = Inr v"

text \<open>\<^verbatim>\<open>xs.slice(0, limit)\<close>; a negative limit counts from the end of the array.\<close>

definition slice0 :: "int \<Rightarrow> 'a list \<Rightarrow> 'a list" where
  "slice0 limit xs = (if limit < 0 then take (nat (int (length xs) + limit)) xs else take (nat limit) xs)"

text \<open>
  \<^verbatim>\<open>entries.map(f)\<close> where \<open>f\<close> reads a property of its argument: a
  \<^verbatim>\<open>null\<close> entry makes \<open>f\<close> throw a TypeError, which ends the whole map.
\<close>

fun map_entries :: "('e \<Rightarrow> 'b) \<Rightarrow> 'e option list \<Rightarrow> js_error + 'b list" where
  "map_entries f [] = Inr []"
| "map_entries f (None # es) = Inl TypeError"
| "map_entries f (Some e # es) = (case map_entries f es of Inl err \<Rightarrow> Inl err | Inr ys \<Rightarrow> Inr (f e # ys))"

subsection \<open>server.js: validateImage and fetchSerpAPIImages\<close>

record head_response =
  head_status :: nat
  head_content_type :: "string option"

text \<open>
  \<^verbatim>\<open>validateImage\<close>: the status is 200 and the content type starts with
  \<^verbatim>\<open>image\<close>; a missing content-type header makes \<^verbatim>\<open>startsWith\<close> throw,
  and every error gives \<^verbatim>\<open>false\<close>.
\<close>

definition validateImage :: "head_response http_result \<Rightarrow> bool" where
  "validateImage probe =
     (case probe of
        Threw e \<Rightarrow> False
      | Response h \<Rightarrow>
          (case head_content_type h of
             None \<Rightarrow> False
           | Some ct \<Rightarrow> head_status h = 200 \<and> prefix ''image'' ct))"

record serp_image =
  serp_original :: "string option"
  serp_title :: "string option"
  serp_source :: "string option"
  serp_link :: "string option"

definition serp_item :: "serp_image \<Rightarrow> item" where
  "serp_item img =
     blank_item\<lparr> imageUrl := serp_original img,
                 title := Some (or_else (serp_title img) ''Design Inspiration''),
                 source := Some ''Google Images'',
                 url := Some (or_else (js_or (serp_source img) (serp_link img)) []) \<rparr>"

text \<open>
  \<open>get\<close> is the outcome of \<^verbatim>\<open>axios.get\<close> for the query, \<open>head\<close> the outcome of
  the probe \<^verbatim>\<open>axios.head(url)\<close> for each image address.
\<close>

definition fetchSerpAPIImages_body ::
  "serp_image listing http_result \<Rightarrow> (string option \<Rightarrow> head_response http_result) \<Rightarrow> int
     \<Rightarrow> js_error + item list" where
  "fetchSerpAPIImages_body get head limit =
     (case get of
        Threw e \<Rightarrow> Inl e
      | Response Missing \<Rightarrow> Inl TypeError
      | Response NotAnArray \<Rightarrow> Inl TypeError
      | Response (Entries es) \<Rightarrow>
          (case map_entries serp_item (slice0 limit es) of
             Inl err \<Rightarrow> Inl err
           | Inr images \<Rightarrow> Inr (filter (\<lambda>img. validateImage (head (imageUrl img))) images)))"

definition fetchSerpAPIImages ::
  "serp_image listing http_result \<Rightarrow> (string option \<Rightarrow> head_response http_result) \<Rightarrow> int
     \<Rightarrow> js_error + item list" where
  "fetchSerpAPIImages get head limit = catch_empty (fetchSerpAPIImages_body get head limit)"

subsection \<open>server.js: fetchFreepikImages\<close>

record freepik_resource =
  fp_image_source_url :: "string option"
  fp_image_regular_url :: "string option"
  fp_title :: "string option"
  fp_url :: "string option"
  fp_contributor_username :: "string option"
  fp_format :: "string option"
  fp_is_premium :: bool

text \<open>
  The \<^verbatim>\<open>format\<close> parameter of the request: set only for \<^verbatim>\<open>vector\<close> and
  \<^verbatim>\<open>psd\<close>, compared in lower case.
\<close>

definition freepik_format_param :: "string \<Rightarrow> string option" where
  "freepik_format_param fmt =
     (if fmt \<noteq> [] \<and> toLowerCase fmt \<in> set [''vector'', ''psd''] then Some (toLowerCase fmt) else None)"

definition freepik_item :: "string \<Rightarrow> freepik_resource \<Rightarrow> item" where
  "freepik_item fmt res =
     blank_item\<lparr> imageUrl := js_or (fp_image_source_url res) (fp_image_regular_url res),
                 title := Some (or_else (fp_title res) ''Design Resource''),
                 source := Some ''Freepik'',
                 url := Some (or_else (fp_url res) []),
                 author := Some (or_else (fp_contributor_username res) ''Freepik Artist''),
                 format := Some (or_else (js_or (fp_format res) (Some fmt)) ''image''),
                 isPremium := fp_is_premium res \<rparr>"

text \<open>
  \<open>get\<close> maps the request parameters (term, limit, format) to the outcome of
  \<^verbatim>\<open>axios.get\<close>. A body without \<^verbatim>\<open>data\<close> returns the empty array before
  the map; a \<^verbatim>\<open>data\<close> that is not an array has no \<^verbatim>\<open>map\<close>.
\<close>

definition fetchFreepikImages_body ::
  "(string \<Rightarrow> int \<Rightarrow> string option \<Rightarrow> freepik_resource listing http_result) \<Rightarrow> string \<Rightarrow> int \<Rightarrow> string
     \<Rightarrow> js_error + item list" where
  "fetchFreepikImages_body get query limit fmt =
     (case get query limit (freepik_format_param fmt) of
        Threw e \<Rightarrow> Inl e
      | Response Missing \<Rightarrow> Inr []
      | Response NotAnArray \<Rightarrow> Inl TypeError
      | Response (Entries es) \<Rightarrow>
          (case map_entries (freepik_item fmt) es of
             Inl err \<Rightarrow> Inl err
           | Inr images \<Rightarrow> Inr (filter (\<lambda>img. truthy (imageUrl img)) images)))"

definition fetchFreepikImages ::
  "(string \<Rightarrow> int \<Rightarrow> string option \<Rightarrow> freepik_resource listing http_result) \<Rightarrow> string \<Rightarrow> int \<Rightarrow> string
     \<Rightarrow> js_error + item list" where
  "fetchFreepikImages get query limit fmt = catch_empty (fetchFreepikImages_body get query limit fmt)"

subsection \<open>server.js: fetchFreepikAIImage\<close>

text \<open>
  The request carries the prompt and the seed \<^verbatim>\<open>Math.floor(Math.random() * 1000000)\<close>,
  an argument of the model. A body without an array \<^verbatim>\<open>images\<close> is logged and gives
  the empty array.
\<close>

definition ai_item :: "string option \<Rightarrow> item" where
  "ai_item img_url =
     blank_item\<lparr> imageUrl := img_url, title := Some ''AI Generated Design'',
                 source := Some ''Freepik AI'', format := Some ''AI Image'' \<rparr>"

definition fetchFreepikAIImage_body ::
  "(string \<Rightarrow> nat \<Rightarrow> string option listing http_result) \<Rightarrow> string \<Rightarrow> nat \<Rightarrow> js_error + item list" where
  "fetchFreepikAIImage_body post prompt seed =
     (case post prompt seed of
        Threw e \<Rightarrow> Inl e
      | Response Missing \<Rightarrow> Inr []
      | Response NotAnArray \<Rightarrow> Inr []
      | Response (Entries es) \<Rightarrow> map_entries ai_item es)"

definition fetchFreepikAIImage ::
  "(string \<Rightarrow> nat \<Rightarrow> string option listing http_result) \<Rightarrow> string \<Rightarrow> nat \<Rightarrow> js_error + item list" where
  "fetchFreepikAIImage post prompt seed = catch_empty (fetchFreepikAIImage_body post prompt seed)"

section \<open>The /search handlers\<close>

text \<open>
  A handler returns its response together with the adapter calls it has made, in the
  order in which it made them. The response keeps the status and the fields of the body
  that the stated properties speak about.
\<close>

record filters =
  f_industry :: "string option"
  f_audience :: "string option"
  f_imageSize :: "string option"
  f_imageType :: "string option"

datatype adapter_call =
    GetDesignSuggestions string "string option" "string option" "string option" "string option"
  | FetchSerpAPIImages string int
  | FetchFreepikImages string int string
  | FetchFreepikAIImage string
  | FetchGoogleImages string int
  | FetchDesignPlatformsInspiration string "string option" "string option" "string option" int
  | GetRelatedDesignTerms string "string option" "string option" "string option"
  | ScrapeDribbble string int "string option" "string option"
  | FetchSerpAPIImages_U string int "string option" "string option" filters
  | GetDesignSuggestions_U string "string option" "string option" "string option" "string option"
      "string option" "string option"
  | ScrapeDesignspiration string int
  | ScrapeMuzli string int
  | ScrapeInstagram string int
  | GetFontPairings "string option" "string option"
  | GenerateColorPalette string "string option" "string option"

datatype 'b response = Status200 'b | Status400 string | Status500 string

text \<open>
  \<^verbatim>\<open>await Promise.all(promises)\<close>: the array of the values when every promise
  fulfils; a rejection is thrown to the caller.
\<close>

fun promise_all :: "(js_error + 'a) list \<Rightarrow> js_error + 'a list" where
  "promise_all [] = Inr []"
| "promise_all (Inl e # ps) = Inl e"
| "promise_all (Inr v # ps) = (case promise_all ps of Inl e \<Rightarrow> Inl e | Inr vs \<Rightarrow> Inr (v # vs))"

subsection \<open>server.js\<close>

text \<open>
  The world outside server.js: the outcome of every upstream HTTP call, and the two random
  draws. \<^verbatim>\<open>getDesignSuggestions\<close> wraps its whole body in a try block whose handler
  returns a fixed text, so it always resolves to a string; that string is given by
  \<open>up_designSuggestions\<close>.
\<close>

record upstream_S =
  up_designSuggestions ::
    "string \<Rightarrow> string option \<Rightarrow> string option \<Rightarrow> string option \<Rightarrow> string option \<Rightarrow> string"
  up_serp :: "string \<Rightarrow> serp_image listing http_result"
  up_head :: "string option \<Rightarrow> head_response http_result"
  up_freepik :: "string \<Rightarrow> int \<Rightarrow> string option \<Rightarrow> freepik_resource listing http_result"
  up_freepik_ai :: "string \<Rightarrow> nat \<Rightarrow> string option listing http_result"
  up_scheme :: scheme
  up_seed :: nat

record body_S =
  body_images :: "item list"
  body_aiSuggestions :: string
  body_colorPalette :: "string list"
  body_heading :: string

text \<open>The seven calls handed to \<^verbatim>\<open>Promise.all\<close>, as calls and as their outcomes.\<close>

definition fanout_calls_S :: "queries_S \<Rightarrow> adapter_call list" where
  "fanout_calls_S qs =
     [FetchSerpAPIImages (industryFontQuery qs) 10,
      FetchSerpAPIImages (colorStyleQuery qs) 10,
      FetchSerpAPIImages (topIndustriesQuery qs) 8,
      FetchFreepikImages (mainFreepikQuery qs) 10 [],
      FetchFreepikImages (colorFreepikQuery qs) 10 [],
      FetchFreepikImages (vectorFreepikQuery qs) 8 ''vector'',
      FetchFreepikImages (psdFreepikQuery qs) 8 ''psd'']"

definition fanout_S :: "upstream_S \<Rightarrow> queries_S \<Rightarrow> (js_error + item list) list" where
  "fanout_S up qs =
     [fetchSerpAPIImages (up_serp up (industryFontQuery qs)) (up_head up) 10,
      fetchSerpAPIImages (up_serp up (colorStyleQuery qs)) (up_head up) 10,
      fetchSerpAPIImages (up_serp up (topIndustriesQuery qs)) (up_head up) 8,
      fetchFreepikImages (up_freepik up) (mainFreepikQuery qs) 10 [],
      fetchFreepikImages (up_freepik up) (colorFreepikQuery qs) 10 [],
      fetchFreepikImages (up_freepik up) (vectorFreepikQuery qs) 8 ''vector'',
      fetchFreepikImages (up_freepik up) (psdFreepikQuery qs) 8 ''psd'']"

text \<open>
  \<^verbatim>\<open>allImages\<close> of server.js: the destructured results in the order of the call
  list (\<^verbatim>\<open>topIndustriesResults\<close>, index 2, is fetched and not used), then the
  AI-generated results.
\<close>

definition allImages_S :: "item list list \<Rightarrow> item list \<Rightarrow> item list" where
  "allImages_S rs freepikAI =
     map (with_category ''Combined Inspiration'') (rs ! 0 @ rs ! 1)
     @ map (with_category ''Downloadable Design Resources'') (rs ! 3)
     @ map (with_category ''Downloadable Color Inspiration'') (rs ! 4)
     @ map (with_category_format ''Downloadable Vector Resources'' ''vector'') (rs ! 5)
     @ map (with_category_format ''Downloadable PSD Templates'' ''psd'') (rs ! 6)
     @ map (with_category_format ''AI Generated Designs'' ''AI Image'') freepikAI"

definition search_S :: "upstream_S \<Rightarrow> request \<Rightarrow> body_S response \<times> adapter_call list" where
  "search_S up r =
     (if \<not> truthy (req_q r) then (Status400 ''Query is required'', [])
      else
        (let q = or_else (req_q r) [];
             aiSuggestions = up_designSuggestions up q (req_industry r) (req_font r) (req_color r)
                               (req_designStyle r);
             colorPalette = extractAdvancedColorPalette (up_scheme up) aiSuggestions (req_color r);
             heading = extractHeading aiSuggestions;
             qs = buildQueries_S q r colorPalette;
             made = GetDesignSuggestions q (req_industry r) (req_font r) (req_color r) (req_designStyle r)
                      # fanout_calls_S qs
         in case promise_all (fanout_S up qs) of
              Inl e \<Rightarrow> (Status500 ''Failed to fetch design resources'', made)
            | Inr rs \<Rightarrow>
                (if req_ai r = Some ''true''
                 then (case fetchFreepikAIImage (up_freepik_ai up) q (up_seed up) of
                         Inl e \<Rightarrow> (Status500 ''Failed to fetch design resources'', made @ [FetchFreepikAIImage q])
                       | Inr freepikAI \<Rightarrow>
                           (Status200 \<lparr> body_images = allImages_S rs freepikAI,
                                        body_aiSuggestions = aiSuggestions,
                                        body_colorPalette = colorPalette,
                                        body_heading = heading \<rparr>,
                            made @ [FetchFreepikAIImage q]))
                 else (Status200 \<lparr> body_images = allImages_S rs [],
                                    body_aiSuggestions = aiSuggestions,
                                    body_colorPalette = colorPalette,
                                    body_heading = heading \<rparr>,
                       made))))"

subsection \<open>updatedserver.txt\<close>

record font_pairing =
  headlineFont :: string
  bodyFont :: string
  pairing_style :: string

record swatch =
  swatch_hex :: string
  swatch_name :: string
  swatch_role :: string














section \<open>Further adapters\<close>

subsection \<open>updatedserver.txt: fetchSerpAPIImages and scrapeDribbble\<close>












subsection \<open>part_000, third variant: the Google and Pinterest adapters\<close>

text \<open>
  \<^verbatim>\<open>Buffer.from(s).toString('base64').substring(0, 12)\<close>: the characters of the
  model are the bytes of the buffer.
\<close>

definition base64_alphabet :: string where
  "base64_alphabet = ''ABCDEFGHIJKLMNOPQRSTUVWXYZabcdefghijklmnopqrstuvwxyz0123456789+/''"

definition sextet :: "nat \<Rightarrow> char" where
  "sextet n = base64_alphabet ! (n mod 64)"

fun base64_bytes :: "nat list \<Rightarrow> string" where
  "base64_bytes [] = []"
| "base64_bytes [a] = [sextet (a div 4), sextet ((a mod 4) * 16), CHR ''='', CHR ''='']"
| "base64_bytes [a, b] =
     [sextet (a div 4), sextet ((a mod 4) * 16 + b div 16), sextet ((b mod 16) * 4), CHR ''='']"
| "base64_bytes (a # b # c # rest) =
     [sextet (a div 4), sextet ((a mod 4) * 16 + b div 16), sextet ((b mod 16) * 4 + c div 64),
      sextet (c mod 64)] @ base64_bytes rest"

definition short_id :: "string \<Rightarrow> string" where
  "short_id s = take 12 (base64_bytes (map (\<lambda>c. of_char c) s))"

text \<open>
  \<^verbatim>\<open>entries.map(f)\<close> for an \<open>f\<close> that may itself throw
  (\<^verbatim>\<open>Buffer.from(undefined)\<close> is a TypeError).
\<close>

fun try_map :: "('e \<Rightarrow> js_error + 'b) \<Rightarrow> 'e option list \<Rightarrow> js_error + 'b list" where
  "try_map f [] = Inr []"
| "try_map f (None # es) = Inl TypeError"
| "try_map f (Some e # es) =
     (case f e of
        Inl err \<Rightarrow> Inl err
      | Inr y \<Rightarrow> (case try_map f es of Inl err \<Rightarrow> Inl err | Inr ys \<Rightarrow> Inr (y # ys)))"

record google_result =
  g_link :: "string option"
  g_title :: "string option"
  g_contextLink :: "string option"
  g_displayLink :: "string option"
  g_snippet :: "string option"

definition google_item :: "google_result \<Rightarrow> js_error + item" where
  "google_item res =
     (case g_link res of
        None \<Rightarrow> Inl TypeError
      | Some l \<Rightarrow>
          Inr (blank_item\<lparr> imageUrl := Some l,
                           title := Some (or_else (g_title res) ''Design Inspiration''),
                           source := Some ''Google Images'',
                           url := Some (or_else (js_or (g_contextLink res) (g_displayLink res)) []),
                           snippet := Some (or_else (g_snippet res) []),
                           ident := Some (short_id l) \<rparr>))"

text \<open>The loop over \<^verbatim>\<open>images\<close> that keeps the first item of every \<^verbatim>\<open>id\<close>.\<close>

fun unique_ids :: "item list \<Rightarrow> string option set \<Rightarrow> item list" where
  "unique_ids [] seenIds = []"
| "unique_ids (img # rest) seenIds =
     (if ident img \<notin> seenIds then img # unique_ids rest (insert (ident img) seenIds)
      else unique_ids rest seenIds)"

definition processGoogleResults :: "google_result option list \<Rightarrow> js_error + item list" where
  "processGoogleResults entries =
     (case try_map google_item entries of
        Inl err \<Rightarrow> Inl err
      | Inr imgs \<Rightarrow> Inr (unique_ids imgs {}))"

text \<open>
  \<open>get\<close> maps the parameters of the request (the query text, \<^verbatim>\<open>num\<close>, and
  whether \<^verbatim>\<open>imgSize: "large"\<close> is set) to the outcome of \<^verbatim>\<open>axios.get\<close>.
  When the first answer has no items and the query has more than three words, the adapter
  asks once more with the first three words and \<^verbatim>\<open>design\<close>.
\<close>

definition fetchGoogleImages_body ::
  "(string \<Rightarrow> int \<Rightarrow> bool \<Rightarrow> google_result listing http_result) \<Rightarrow> string \<Rightarrow> int
     \<Rightarrow> js_error + item list" where
  "fetchGoogleImages_body get query limit =
     (case get query (min limit 10) True of
        Threw e \<Rightarrow> Inl e
      | Response NotAnArray \<Rightarrow> Inl TypeError
      | Response (Entries (e # es)) \<Rightarrow> processGoogleResults (e # es)
      | Response _ \<Rightarrow>
          (if 3 < length (split_blank query)
           then (case get (join_blank (take 3 (split_blank query)) @ '' design'') (min limit 10) False of
                   Threw e \<Rightarrow> Inl e
                 | Response Missing \<Rightarrow> Inr []
                 | Response NotAnArray \<Rightarrow> Inl TypeError
                 | Response (Entries es) \<Rightarrow> processGoogleResults es)
           else Inr []))"

definition fetchGoogleImages ::
  "(string \<Rightarrow> int \<Rightarrow> bool \<Rightarrow> google_result listing http_result) \<Rightarrow> string \<Rightarrow> int
     \<Rightarrow> js_error + item list" where
  "fetchGoogleImages get query limit = catch_empty (fetchGoogleImages_body get query limit)"

text \<open>\<^verbatim>\<open>s.replace(pat, '')\<close> for a string pattern: its first occurrence is removed.\<close>

fun remove_first :: "string \<Rightarrow> string \<Rightarrow> string" where
  "remove_first pat [] = []"
| "remove_first pat (c # cs) =
     (if prefix pat (c # cs) then drop (length pat) (c # cs) else c # remove_first pat cs)"

definition pinterest_item :: "google_result \<Rightarrow> js_error + item" where
  "pinterest_item res =
     (case g_link res of
        None \<Rightarrow> Inl TypeError
      | Some l \<Rightarrow>
          Inr (blank_item\<lparr> imageUrl := Some l,
                           title := Some (or_else (map_option (\<lambda>t. remove_first '' on Pinterest''
                                                      (remove_first '' | Pinterest'' t)) (g_title res))
                                            ''Pinterest Inspiration''),
                           source := Some ''Pinterest'',
                           url := Some (or_else (js_or (g_contextLink res) (g_displayLink res)) []),
                           ident := Some (short_id l),
                           snippet := Some (or_else (g_snippet res) []) \<rparr>))"

definition fetchPinterestViaGoogle_body ::
  "(string \<Rightarrow> int \<Rightarrow> bool \<Rightarrow> google_result listing http_result) \<Rightarrow> string \<Rightarrow> int
     \<Rightarrow> js_error + item list" where
  "fetchPinterestViaGoogle_body get query limit =
     (case get (query @ '' site:pinterest.com'') (min (limit + 4) 10) True of
        Threw e \<Rightarrow> Inl e
      | Response Missing \<Rightarrow> Inr []
      | Response NotAnArray \<Rightarrow> Inl TypeError
      | Response (Entries es) \<Rightarrow>
          (case try_map pinterest_item es of
             Inl err \<Rightarrow> Inl err
           | Inr imgs \<Rightarrow> Inr (filter (\<lambda>img. truthy (imageUrl img)) imgs)))"

definition fetchPinterestViaGoogle ::
  "(string \<Rightarrow> int \<Rightarrow> bool \<Rightarrow> google_result listing http_result) \<Rightarrow> string \<Rightarrow> int
     \<Rightarrow> js_error + item list" where
  "fetchPinterestViaGoogle get query limit = catch_empty (fetchPinterestViaGoogle_body get query limit)"

text \<open>
  \<^verbatim>\<open>fetchDesignPlatformsInspiration\<close>: two Pinterest searches joined by
  \<^verbatim>\<open>Promise.all\<close>, for \<^verbatim>\<open>Math.ceil(limit/2)\<close> and
  \<^verbatim>\<open>Math.floor(limit/2)\<close> results; the results of the second are added unless
  their \<^verbatim>\<open>id\<close> has been seen.
\<close>

definition fetchDesignPlatformsInspiration_body ::
  "(string \<Rightarrow> int \<Rightarrow> bool \<Rightarrow> google_result listing http_result) \<Rightarrow> string \<Rightarrow> request \<Rightarrow> int
     \<Rightarrow> js_error + item list" where
  "fetchDesignPlatformsInspiration_body get q r limit =
     (let mainQuery = join_blank (filter_Boolean
                        [Some q, req_industry r, req_designStyle r, req_font r, Some ''design'']);
          alternateQuery = join_blank (filter_Boolean [Some q, req_industry r, Some ''inspiration''])
      in case promise_all [fetchPinterestViaGoogle get mainQuery ((limit + 1) div 2),
                           fetchPinterestViaGoogle get alternateQuery (limit div 2)] of
           Inl e \<Rightarrow> Inl e
         | Inr rs \<Rightarrow>
             Inr (map (\<lambda>img. img\<lparr>source := Some ''Pinterest''\<rparr>)
                    (rs ! 0 @ unique_ids (rs ! 1) (set (map ident (rs ! 0))))))"

definition fetchDesignPlatformsInspiration ::
  "(string \<Rightarrow> int \<Rightarrow> bool \<Rightarrow> google_result listing http_result) \<Rightarrow> string \<Rightarrow> request \<Rightarrow> int
     \<Rightarrow> js_error + item list" where
  "fetchDesignPlatformsInspiration get q r limit =
     catch_empty (fetchDesignPlatformsInspiration_body get q r limit)"

subsection \<open>part_000, third variant: the Freepik adapters\<close>

text \<open>As in server.js, with the field \<^verbatim>\<open>id\<close> added to every item.\<close>

definition freepik_item_B :: "string \<Rightarrow> freepik_resource \<Rightarrow> item" where
  "freepik_item_B fmt res =
     (freepik_item fmt res)\<lparr> ident :=
        Some (short_id (or_else (js_or (fp_image_source_url res) (fp_image_regular_url res)) [])) \<rparr>"

definition fetchFreepikImages_B_body ::
  "(string \<Rightarrow> int \<Rightarrow> string option \<Rightarrow> freepik_resource listing http_result) \<Rightarrow> string \<Rightarrow> int \<Rightarrow> string
     \<Rightarrow> js_error + item list" where
  "fetchFreepikImages_B_body get query limit fmt =
     (case get query limit (freepik_format_param fmt) of
        Threw e \<Rightarrow> Inl e
      | Response Missing \<Rightarrow> Inr []
      | Response NotAnArray \<Rightarrow> Inl TypeError
      | Response (Entries es) \<Rightarrow>
          (case map_entries (freepik_item_B fmt) es of
             Inl err \<Rightarrow> Inl err
           | Inr imgs \<Rightarrow> Inr (filter (\<lambda>img. truthy (imageUrl img)) imgs)))"

definition fetchFreepikImages_B ::
  "(string \<Rightarrow> int \<Rightarrow> string option \<Rightarrow> freepik_resource listing http_result) \<Rightarrow> string \<Rightarrow> int \<Rightarrow> string
     \<Rightarrow> js_error + item list" where
  "fetchFreepikImages_B get query limit fmt = catch_empty (fetchFreepikImages_B_body get query limit fmt)"

definition ai_item_B :: "string option \<Rightarrow> item" where
  "ai_item_B img_url = (ai_item img_url)\<lparr> ident := Some (short_id (or_else img_url [])) \<rparr>"

definition fetchFreepikAIImage_B_body ::
  "(string \<Rightarrow> nat \<Rightarrow> string option listing http_result) \<Rightarrow> string \<Rightarrow> nat \<Rightarrow> js_error + item list" where
  "fetchFreepikAIImage_B_body post prompt seed =
     (case post prompt seed of
        Threw e \<Rightarrow> Inl e
      | Response Missing \<Rightarrow> Inr []
      | Response NotAnArray \<Rightarrow> Inr []
      | Response (Entries es) \<Rightarrow> map_entries ai_item_B es)"

definition fetchFreepikAIImage_B ::
  "(string \<Rightarrow> nat \<Rightarrow> string option listing http_result) \<Rightarrow> string \<Rightarrow> nat \<Rightarrow> js_error + item list" where
  "fetchFreepikAIImage_B post prompt seed = catch_empty (fetchFreepikAIImage_B_body post prompt seed)"

subsection \<open>part_000, third variant: the handler\<close>

record upstream_B =
  upB_designSuggestions ::
    "string \<Rightarrow> string option \<Rightarrow> string option \<Rightarrow> string option \<Rightarrow> string option \<Rightarrow> string"
  upB_google :: "string \<Rightarrow> int \<Rightarrow> bool \<Rightarrow> google_result listing http_result"
  upB_freepik :: "string \<Rightarrow> int \<Rightarrow> string option \<Rightarrow> freepik_resource listing http_result"
  upB_freepik_ai :: "string \<Rightarrow> nat \<Rightarrow> string option listing http_result"
  upB_scheme :: scheme
  upB_seed :: nat

text \<open>
  \<^verbatim>\<open>platforms = "true"\<close> in the destructuring: the default stands in for an absent
  parameter only.
\<close>

definition platforms_wanted :: "request \<Rightarrow> bool" where
  "platforms_wanted r = (req_platforms r = None \<or> req_platforms r = Some ''true'')"

definition fanout_calls_B :: "string \<Rightarrow> request \<Rightarrow> queries_B \<Rightarrow> adapter_call list" where
  "fanout_calls_B q r qs =
     (if platforms_wanted r
      then [FetchDesignPlatformsInspiration q (req_industry r) (req_designStyle r) (req_font r) 20]
      else [])
     @ [FetchGoogleImages (enhancedQuery qs) 10,
        FetchGoogleImages (colorQuery qs) 6,
        FetchFreepikImages (mainFreepikQuery_B qs) 10 [],
        FetchFreepikImages (colorFreepikQuery_B qs) 10 [],
        FetchFreepikImages (vectorQuery_B qs) 8 ''vector'',
        FetchFreepikImages (psdQuery_B qs) 8 ''psd'']"

text \<open>The seven promises handed to \<^verbatim>\<open>Promise.all\<close>, in the order of the array.\<close>

definition fanout_B :: "upstream_B \<Rightarrow> string \<Rightarrow> request \<Rightarrow> queries_B \<Rightarrow> (js_error + item list) list" where
  "fanout_B up q r qs =
     [fetchGoogleImages (upB_google up) (enhancedQuery qs) 10,
      fetchGoogleImages (upB_google up) (colorQuery qs) 6,
      fetchFreepikImages_B (upB_freepik up) (mainFreepikQuery_B qs) 10 [],
      fetchFreepikImages_B (upB_freepik up) (colorFreepikQuery_B qs) 10 [],
      fetchFreepikImages_B (upB_freepik up) (vectorQuery_B qs) 8 ''vector'',
      fetchFreepikImages_B (upB_freepik up) (psdQuery_B qs) 8 ''psd'',
      (if platforms_wanted r then fetchDesignPlatformsInspiration (upB_google up) q r 20 else Inr [])]"

definition results_B :: "item list list \<Rightarrow> item list \<Rightarrow> fanout_results" where
  "results_B rs freepikAI =
     \<lparr> designPlatformsResults = rs ! 6, enhancedResults = rs ! 0, colorResults = rs ! 1,
       freepikMainResults = rs ! 2, freepikColorResults = rs ! 3, freepikVectorResults = rs ! 4,
       freepikPsdResults = rs ! 5, freepikAIResults = freepikAI \<rparr>"

definition search_B :: "upstream_B \<Rightarrow> request \<Rightarrow> body_S response \<times> adapter_call list" where
  "search_B up r =
     (if \<not> truthy (req_q r) then (Status400 ''Query is required'', [])
      else
        (let q = or_else (req_q r) [];
             aiSuggestions = upB_designSuggestions up q (req_industry r) (req_font r) (req_color r)
                               (req_designStyle r);
             colorPalette = extractAdvancedColorPalette (upB_scheme up) aiSuggestions (req_color r);
             heading = extractHeading aiSuggestions;
             qs = buildQueries_B q r colorPalette;
             made = GetDesignSuggestions q (req_industry r) (req_font r) (req_color r) (req_designStyle r)
                      # fanout_calls_B q r qs
         in case promise_all (fanout_B up q r qs) of
              Inl e \<Rightarrow> (Status500 ''Failed to fetch design resources'', made)
            | Inr rs \<Rightarrow>
                (if req_ai r = Some ''true''
                 then (case fetchFreepikAIImage_B (upB_freepik_ai up) (aiPrompt_B qs) (upB_seed up) of
                         Inl e \<Rightarrow> (Status500 ''Failed to fetch design resources'',
                                   made @ [FetchFreepikAIImage (aiPrompt_B qs)])
                       | Inr freepikAI \<Rightarrow>
                           (Status200 \<lparr> body_images = allImages_deduplicated (results_B rs freepikAI),
                                        body_aiSuggestions = aiSuggestions,
                                        body_colorPalette = colorPalette,
                                        body_heading = heading \<rparr>,
                            made @ [FetchFreepikAIImage (aiPrompt_B qs)]))
                 else (Status200 \<lparr> body_images = allImages_deduplicated (results_B rs []),
                                    body_aiSuggestions = aiSuggestions,
                                    body_colorPalette = colorPalette,
                                    body_heading = heading \<rparr>,
                       made))))"

section \<open>Sample worlds and requests\<close>

text \<open>Concrete inputs on which the handlers and adapters are evaluated below.\<close>

definition empty_request :: request where
  "empty_request =
     \<lparr> req_q = None, req_industry = None, req_font = None, req_color = None, req_designStyle = None,
       req_audience = None, req_purpose = None, req_imageSize = None, req_imageType = None,
       req_sortBy = None, req_ai = None, req_platforms = None \<rparr>"

text \<open>A world in which every upstream call of server.js fails.\<close>

definition failing_upstream_S :: upstream_S where
  "failing_upstream_S =
     \<lparr> up_designSuggestions = (\<lambda>_ _ _ _ _. ''Could not generate AI suggestions.''),
       up_serp = (\<lambda>_. Threw NetworkError),
       up_head = (\<lambda>_. Threw TimeoutError),
       up_freepik = (\<lambda>_ _ _. Threw (HttpStatusError 500)),
       up_freepik_ai = (\<lambda>_ _. Threw TimeoutError),
       up_scheme = Triadic,
       up_seed = 7 \<rparr>"

definition failing_upstream_B :: upstream_B where
  "failing_upstream_B =
     \<lparr> upB_designSuggestions = (\<lambda>_ _ _ _ _. ''Could not generate AI suggestions.''),
       upB_google = (\<lambda>_ _ _. Threw NetworkError),
       upB_freepik = (\<lambda>_ _ _. Threw (HttpStatusError 500)),
       upB_freepik_ai = (\<lambda>_ _. Threw TimeoutError),
       upB_scheme = Triadic,
       upB_seed = 7 \<rparr>"

definition sample_image :: "string \<Rightarrow> string \<Rightarrow> item" where
  "sample_image u t = blank_item\<lparr> imageUrl := Some u, title := Some t \<rparr>"


section \<open>Auxiliary notions for the statements\<close>

text \<open>
  No text handed to the query builder holds the nine letters \<^verbatim>\<open>undefined\<close> itself:
  the query, the optional fields that are present, and the colours of the palette.
\<close>

definition inputs_clean :: "string \<Rightarrow> request \<Rightarrow> string list \<Rightarrow> bool" where
  "inputs_clean q r colorPalette =
     (\<not> includes_str q ''undefined''
      \<and> \<not> includes_str (or_else (req_industry r) []) ''undefined''
      \<and> \<not> includes_str (or_else (req_font r) []) ''undefined''
      \<and> \<not> includes_str (or_else (req_color r) []) ''undefined''
      \<and> \<not> includes_str (or_else (req_designStyle r) []) ''undefined''
      \<and> (\<forall>c \<in> set colorPalette. \<not> includes_str c ''undefined''))"


text \<open>An item without the two fields that the tagging maps set after the deduplication.\<close>

definition untagged :: "item \<Rightarrow> item" where
  "untagged img = img\<lparr>category := None, format := None\<rparr>"

text \<open>The queries and the palette that server.js and the third variant build for a request.\<close>

definition palette_S :: "upstream_S \<Rightarrow> request \<Rightarrow> string list" where
  "palette_S up r =
     extractAdvancedColorPalette (up_scheme up)
       (up_designSuggestions up (or_else (req_q r) []) (req_industry r) (req_font r) (req_color r)
          (req_designStyle r))
       (req_color r)"

definition request_queries_S :: "upstream_S \<Rightarrow> request \<Rightarrow> queries_S" where
  "request_queries_S up r = buildQueries_S (or_else (req_q r) []) r (palette_S up r)"

definition palette_B :: "upstream_B \<Rightarrow> request \<Rightarrow> string list" where
  "palette_B up r =
     extractAdvancedColorPalette (upB_scheme up)
       (upB_designSuggestions up (or_else (req_q r) []) (req_industry r) (req_font r) (req_color r)
          (req_designStyle r))
       (req_color r)"

definition request_queries_B :: "upstream_B \<Rightarrow> request \<Rightarrow> queries_B" where
  "request_queries_B up r = buildQueries_B (or_else (req_q r) []) r (palette_B up r)"

section \<open>The first variant of part_000\<close>

text \<open>
  The handler of the first variant has the adapters, the queries and the fan-out of
  server.js. It differs in the palette, which is \<open>extractColorPalette\<close>, and in the
  categories of \<^verbatim>\<open>allImages\<close>, where each of the three image searches has its own.
\<close>

definition palette_A :: "upstream_S \<Rightarrow> request \<Rightarrow> string list" where
  "palette_A up r =
     extractColorPalette
       (up_designSuggestions up (or_else (req_q r) []) (req_industry r) (req_font r) (req_color r)
          (req_designStyle r))"

definition request_queries_A :: "upstream_S \<Rightarrow> request \<Rightarrow> queries_S" where
  "request_queries_A up r = buildQueries_S (or_else (req_q r) []) r (palette_A up r)"

definition allImages_A :: "item list list \<Rightarrow> item list \<Rightarrow> item list" where
  "allImages_A rs freepikAI =
     map (with_category ''Industry & Font Inspiration'') (rs ! 0)
     @ map (with_category ''Color & Style Inspiration'') (rs ! 1)
     @ map (with_category ''Industry Examples'') (rs ! 2)
     @ map (with_category ''Downloadable Design Resources'') (rs ! 3)
     @ map (with_category ''Downloadable Color Inspiration'') (rs ! 4)
     @ map (with_category_format ''Downloadable Vector Resources'' ''vector'') (rs ! 5)
     @ map (with_category_format ''Downloadable PSD Templates'' ''psd'') (rs ! 6)
     @ map (with_category_format ''AI Generated Designs'' ''AI Image'') freepikAI"

definition search_A :: "upstream_S \<Rightarrow> request \<Rightarrow> body_S response \<times> adapter_call list" where
  "search_A up r =
     (if \<not> truthy (req_q r) then (Status400 ''Query is required'', [])
      else
        (let q = or_else (req_q r) [];
             aiSuggestions = up_designSuggestions up q (req_industry r) (req_font r) (req_color r)
                               (req_designStyle r);
             colorPalette = extractColorPalette aiSuggestions;
             heading = extractHeading aiSuggestions;
             qs = buildQueries_S q r colorPalette;
             made = GetDesignSuggestions q (req_industry r) (req_font r) (req_color r) (req_designStyle r)
                      # fanout_calls_S qs
         in case promise_all (fanout_S up qs) of
              Inl e \<Rightarrow> (Status500 ''Failed to fetch design resources'', made)
            | Inr rs \<Rightarrow>
                (if req_ai r = Some ''true''
                 then (case fetchFreepikAIImage (up_freepik_ai up) q (up_seed up) of
                         Inl e \<Rightarrow> (Status500 ''Failed to fetch design resources'', made @ [FetchFreepikAIImage q])
                       | Inr freepikAI \<Rightarrow>
                           (Status200 \<lparr> body_images = allImages_A rs freepikAI,
                                        body_aiSuggestions = aiSuggestions,
                                        body_colorPalette = colorPalette,
                                        body_heading = heading \<rparr>,
                            made @ [FetchFreepikAIImage q]))
                 else (Status200 \<lparr> body_images = allImages_A rs [],
                                    body_aiSuggestions = aiSuggestions,
                                    body_colorPalette = colorPalette,
                                    body_heading = heading \<rparr>,
                       made))))"

section \<open>The scrapers that share the browser (updatedserver.txt)\<close>





section \<open>Properties of the suggestion extractor\<close>

subsection \<open>Heading extraction\<close>















subsection \<open>Colour palette\<close>

lemma set_uniq_acc: "set (uniq_acc seen xs) = set xs - set seen"
  by (induction xs arbitrary: seen) auto

lemma distinct_uniq_acc: "distinct (uniq_acc seen xs)"
  by (induction xs arbitrary: seen) (auto simp: set_uniq_acc)

lemma distinct_new_Set: "distinct (new_Set xs)"
  by (simp add: new_Set_def distinct_uniq_acc)

lemma sample_hex:
  "hexCodeMatches ''Primary: #FF5733, Secondary: #33FF57'' = [''#FF5733'', ''#33FF57'']"
  by (simp add: isHex_def)

lemma sample_names: "colorNameMatches ''Primary: #FF5733, Secondary: #33FF57'' = []"
  by code_simp

lemma sample_found:
  "allColors_found ''Primary: #FF5733, Secondary: #33FF57'' None = [''#FF5733'', ''#33FF57'']"
  by (simp add: allColors_found_def sample_hex sample_names new_Set_def generateColorFromNames_def
        del: hexCodeMatches.simps)

lemma advanced_sample:
  "extractAdvancedColorPalette g ''Primary: #FF5733, Secondary: #33FF57'' None
     = [''#FF5733'', ''#33FF57''] @ colorTheoryMappings g ''#FF5733''"
  by (cases g) (simp_all add: extractAdvancedColorPalette_def sample_found generateComplementaryColors_def
      generateAnalogousColors_def generateTriadicColors_def)

lemma advanced_empty:
  "hexCodeMatches t = [] \<Longrightarrow> colorNameMatches t = [] \<Longrightarrow> extractAdvancedColorPalette g t None = []"
  by (simp add: extractAdvancedColorPalette_def allColors_found_def new_Set_def generateColorFromNames_def)

lemma advanced_distinct:
  "3 \<le> length (allColors_found t c) \<Longrightarrow> distinct (extractAdvancedColorPalette g t c)"
  by (simp add: extractAdvancedColorPalette_def allColors_found_def Let_def distinct_new_Set)

text \<open>
  C4 (as amended). On the sample text the hex-only extractor returns exactly the two
  codes; the advanced extractor returns them first and in order, followed by the colours
  its colour-theory step adds because fewer than three were found. A text with no hex
  code and no colour name (and no input colour) gives the empty palette in both. The
  advanced palette has at most five entries, the hex-only one at most three, and the
  advanced palette has no repetition whenever three or more colours were found.
\<close>

theorem colorPalette_behaviour:
  "extractColorPalette ''Primary: #FF5733, Secondary: #33FF57'' = [''#FF5733'', ''#33FF57'']
   \<and> extractAdvancedColorPalette g ''Primary: #FF5733, Secondary: #33FF57'' None
       = [''#FF5733'', ''#33FF57''] @ colorTheoryMappings g ''#FF5733''
   \<and> (hexCodeMatches t = [] \<and> colorNameMatches t = []
        \<longrightarrow> extractAdvancedColorPalette g t None = [] \<and> extractColorPalette t = [])
   \<and> length (extractAdvancedColorPalette g t c) \<le> 5
   \<and> length (extractColorPalette t) \<le> 3
   \<and> (3 \<le> length (allColors_found t c) \<longrightarrow> distinct (extractAdvancedColorPalette g t c))"
proof -
  have 1: "extractColorPalette ''Primary: #FF5733, Secondary: #33FF57'' = [''#FF5733'', ''#33FF57'']"
    by (simp add: extractColorPalette_def sample_hex del: hexCodeMatches.simps)
  have 3: "hexCodeMatches t = [] \<Longrightarrow> extractColorPalette t = []"
    by (simp add: extractColorPalette_def)
  have 4: "length (extractAdvancedColorPalette g t c) \<le> 5"
    by (simp add: extractAdvancedColorPalette_def Let_def)
  have 5: "length (extractColorPalette t) \<le> 3"
    by (simp add: extractColorPalette_def)
  show ?thesis
    using 1 advanced_sample[of g] advanced_empty[of t g] 3 4 5 advanced_distinct[of t c g]
    by blast
qed

theorem colorPalette_behaviour_witness:
  "extractAdvancedColorPalette Triadic ''plain words only'' None = []
   \<and> extractColorPalette ''plain words only'' = []
   \<and> distinct (extractAdvancedColorPalette Triadic ''#111111 #222222 #333333'' None)"
proof -
  have h: "hexCodeMatches ''plain words only'' = []" by simp
  have n: "colorNameMatches ''plain words only'' = []" by code_simp
  have f: "allColors_found ''#111111 #222222 #333333'' None = [''#111111'', ''#222222'', ''#333333'']"
    by code_simp
  show ?thesis
    using colorPalette_behaviour[of Triadic "''plain words only''" None] h n
      colorPalette_behaviour[of Triadic "''#111111 #222222 #333333''" None] f
    by simp
qed

text \<open>
  C4 as stated fails for the advanced extractor: on the sample text it returns four
  entries, whichever colour scheme is drawn, and the first code is repeated.
\<close>

theorem colorPalette_sample_counterexample:
  "extractAdvancedColorPalette Complementary ''Primary: #FF5733, Secondary: #33FF57'' None
     = [''#FF5733'', ''#33FF57'', ''#FF5733'', ''#FF5733'']
   \<and> extractAdvancedColorPalette Analogous ''Primary: #FF5733, Secondary: #33FF57'' None
     = [''#FF5733'', ''#33FF57'', ''#FF5733'', ''#FF5733'']
   \<and> extractAdvancedColorPalette Triadic ''Primary: #FF5733, Secondary: #33FF57'' None
     = [''#FF5733'', ''#33FF57'', ''#FF5733'', ''#FF5733'']
   \<and> extractAdvancedColorPalette Complementary ''Primary: #FF5733, Secondary: #33FF57'' None
     \<noteq> [''#FF5733'', ''#33FF57'']
   \<and> \<not> distinct (extractAdvancedColorPalette Complementary ''Primary: #FF5733, Secondary: #33FF57'' None)"
  by (simp add: advanced_sample generateComplementaryColors_def generateAnalogousColors_def
      generateTriadicColors_def adjustColorBrightness_def rotateHue_def)

section \<open>Properties of the deduplication\<close>

subsection \<open>The uniqueImages loop\<close>

lemma uniqueImages_loop_acc:
  "fst (uniqueImages_loop xs (acc, seen)) = acc @ fst (uniqueImages_loop xs ([], seen))"
proof (induction xs arbitrary: acc seen)
  case Nil
  then show ?case by simp
next
  case (Cons x xs)
  show ?case
    using Cons.IH[of "acc @ [x]" "insert (imageUrl x) seen"] Cons.IH[of "[x]" "insert (imageUrl x) seen"]
      Cons.IH[of acc seen]
    by simp
qed

lemma uniqueImages_step:
  "fst (uniqueImages_loop (x # xs) ([], seen)) =
     (if imageUrl x \<notin> seen then x # fst (uniqueImages_loop xs ([], insert (imageUrl x) seen))
      else fst (uniqueImages_loop xs ([], seen)))"
  using uniqueImages_loop_acc[of xs "[x]" "insert (imageUrl x) seen"] by simp

lemma uniqueImages_keys:
  "set (map imageUrl (fst (uniqueImages_loop xs ([], seen)))) = set (map imageUrl xs) - seen"
proof (induction xs arbitrary: seen)
  case Nil
  then show ?case by simp
next
  case (Cons x xs)
  show ?case unfolding uniqueImages_step using Cons.IH by auto
qed

lemma uniqueImages_distinct:
  "distinct (map imageUrl (fst (uniqueImages_loop xs ([], seen))))"
proof (induction xs arbitrary: seen)
  case Nil
  then show ?case by simp
next
  case (Cons x xs)
  show ?case unfolding uniqueImages_step using Cons.IH uniqueImages_keys by auto
qed

lemma uniqueImages_subseq:
  "subseq (fst (uniqueImages_loop xs ([], seen))) xs"
proof (induction xs arbitrary: seen)
  case Nil
  then show ?case by simp
next
  case (Cons x xs)
  show ?case unfolding uniqueImages_step using Cons.IH by auto
qed

lemma uniqueImages_first:
  "y \<in> set (fst (uniqueImages_loop xs ([], seen))) \<Longrightarrow> find (\<lambda>x. imageUrl x = imageUrl y) xs = Some y"
proof (induction xs arbitrary: seen)
  case Nil
  then show ?case by simp
next
  case (Cons x xs)
  show ?case
  proof (cases "imageUrl x \<in> seen")
    case True
    with Cons.prems have y: "y \<in> set (fst (uniqueImages_loop xs ([], seen)))"
      by (simp add: uniqueImages_step del: uniqueImages_loop.simps)
    then have "imageUrl y \<in> set (map imageUrl (fst (uniqueImages_loop xs ([], seen))))" by simp
    then have "imageUrl y \<notin> seen" unfolding uniqueImages_keys by simp
    with True have "imageUrl x \<noteq> imageUrl y" by auto
    then show ?thesis using Cons.IH[OF y] by simp
  next
    case False
    with Cons.prems have "y = x \<or> y \<in> set (fst (uniqueImages_loop xs ([], insert (imageUrl x) seen)))"
      by (simp add: uniqueImages_step del: uniqueImages_loop.simps)
    then show ?thesis
    proof
      assume "y = x" then show ?thesis by simp
    next
      assume y: "y \<in> set (fst (uniqueImages_loop xs ([], insert (imageUrl x) seen)))"
      then have "imageUrl y \<in> set (map imageUrl (fst (uniqueImages_loop xs ([], insert (imageUrl x) seen))))"
        by simp
      then have "imageUrl y \<notin> insert (imageUrl x) seen" unfolding uniqueImages_keys by simp
      then have "imageUrl x \<noteq> imageUrl y" by auto
      then show ?thesis using Cons.IH[OF y] by simp
    qed
  qed
qed

subsection \<open>filterDuplicates\<close>

lemma filterDuplicates_keys:
  "set (map imageUrl (fst (filterDuplicates xs seen))) = {k \<in> set (map imageUrl xs). truthy k} - seen"
  by (induction xs arbitrary: seen) (auto simp: split_beta)

lemma filterDuplicates_seen:
  "snd (filterDuplicates xs seen) = seen \<union> {k \<in> set (map imageUrl xs). truthy k}"
  by (induction xs arbitrary: seen) (auto simp: split_beta)

lemma filterDuplicates_distinct:
  "distinct (map imageUrl (fst (filterDuplicates xs seen)))"
proof (induction xs arbitrary: seen)
  case Nil
  then show ?case by simp
next
  case (Cons x xs)
  have "imageUrl x \<notin> set (map imageUrl (fst (filterDuplicates xs (insert (imageUrl x) seen))))"
    unfolding filterDuplicates_keys by simp
  then show ?case using Cons.IH by (simp add: split_beta)
qed

lemma filterDuplicates_subseq: "subseq (fst (filterDuplicates xs seen)) xs"
  by (induction xs arbitrary: seen) (auto simp: split_beta)

lemma filterDuplicates_first:
  "y \<in> set (fst (filterDuplicates xs seen)) \<Longrightarrow> find (\<lambda>x. imageUrl x = imageUrl y) xs = Some y"
proof (induction xs arbitrary: seen)
  case Nil
  then show ?case by simp
next
  case (Cons x xs)
  show ?case
  proof (cases "\<not> truthy (imageUrl x) \<or> imageUrl x \<in> seen")
    case True
    with Cons.prems have y: "y \<in> set (fst (filterDuplicates xs seen))" by auto
    then have "imageUrl y \<in> set (map imageUrl (fst (filterDuplicates xs seen)))" by simp
    then have "truthy (imageUrl y) \<and> imageUrl y \<notin> seen" unfolding filterDuplicates_keys by simp
    with True have "imageUrl x \<noteq> imageUrl y" by auto
    then show ?thesis using Cons.IH[OF y] by simp
  next
    case False
    with Cons.prems have "y = x \<or> y \<in> set (fst (filterDuplicates xs (insert (imageUrl x) seen)))"
      by (auto simp: split_beta)
    then show ?thesis
    proof
      assume "y = x" then show ?thesis by simp
    next
      assume y: "y \<in> set (fst (filterDuplicates xs (insert (imageUrl x) seen)))"
      then have "imageUrl y \<in> set (map imageUrl (fst (filterDuplicates xs (insert (imageUrl x) seen))))"
        by simp
      then have "imageUrl y \<notin> insert (imageUrl x) seen" unfolding filterDuplicates_keys by simp
      then have "imageUrl x \<noteq> imageUrl y" by auto
      then show ?thesis using Cons.IH[OF y] by simp
    qed
  qed
qed

lemma filterDuplicates_append:
  "filterDuplicates (xs @ ys) seen =
     (fst (filterDuplicates xs seen) @ fst (filterDuplicates ys (snd (filterDuplicates xs seen))),
      snd (filterDuplicates ys (snd (filterDuplicates xs seen))))"
  by (induction xs arbitrary: seen) (auto simp: split_beta)

lemma filtered_groups_concat:
  "concat (filtered_groups r) = fst (filterDuplicates (concatenation_order r) {})"
  by (simp add: filtered_groups_def concatenation_order_def split_beta filterDuplicates_append Let_def)


text \<open>
  C1 (as amended). In the uniqueImages loop every key of the input, the missing image
  included, has exactly one item in the output, and that item is the first item of the
  input with this key. filterDuplicates does the same for every key that is a non-empty
  address; items whose image is missing or empty are dropped. The six chained calls of
  the third variant act as one call on the whole concatenation.
\<close>

theorem dedup_keeps_first_of_each_key:
  "distinct (map imageUrl (uniqueImages_of xs))
   \<and> set (map imageUrl (uniqueImages_of xs)) = set (map imageUrl xs)
   \<and> (\<forall>y \<in> set (uniqueImages_of xs). find (\<lambda>x. imageUrl x = imageUrl y) xs = Some y)
   \<and> distinct (map imageUrl (fst (filterDuplicates xs {})))
   \<and> set (map imageUrl (fst (filterDuplicates xs {}))) = {k \<in> set (map imageUrl xs). truthy k}
   \<and> (\<forall>y \<in> set (fst (filterDuplicates xs {})). find (\<lambda>x. imageUrl x = imageUrl y) xs = Some y)
   \<and> concat (filtered_groups r) = fst (filterDuplicates (concatenation_order r) {})"
proof -
  have 1: "distinct (map imageUrl (uniqueImages_of xs))"
    by (simp only: uniqueImages_of_def uniqueImages_distinct)
  have 2: "set (map imageUrl (uniqueImages_of xs)) = set (map imageUrl xs)"
    unfolding uniqueImages_of_def uniqueImages_keys by simp
  have 3: "\<forall>y \<in> set (uniqueImages_of xs). find (\<lambda>x. imageUrl x = imageUrl y) xs = Some y"
    unfolding uniqueImages_of_def using uniqueImages_first by blast
  have 4: "distinct (map imageUrl (fst (filterDuplicates xs {})))"
    by (rule filterDuplicates_distinct)
  have 5: "set (map imageUrl (fst (filterDuplicates xs {}))) = {k \<in> set (map imageUrl xs). truthy k}"
    unfolding filterDuplicates_keys by simp
  have 6: "\<forall>y \<in> set (fst (filterDuplicates xs {})). find (\<lambda>x. imageUrl x = imageUrl y) xs = Some y"
    using filterDuplicates_first by blast
  show ?thesis using 1 2 3 4 5 6 filtered_groups_concat by blast
qed

theorem dedup_keeps_first_of_each_key_witness:
  "uniqueImages_of [sample_image ''a'' ''1'', sample_image ''b'' ''2'', sample_image ''a'' ''3'']
     = [sample_image ''a'' ''1'', sample_image ''b'' ''2'']
   \<and> find (\<lambda>x. imageUrl x = imageUrl (sample_image ''a'' ''1''))
        [sample_image ''a'' ''1'', sample_image ''b'' ''2'', sample_image ''a'' ''3'']
       = Some (sample_image ''a'' ''1'')
   \<and> fst (filterDuplicates [sample_image ''a'' ''1'', sample_image ''b'' ''2'', sample_image ''a'' ''3''] {})
       = [sample_image ''a'' ''1'', sample_image ''b'' ''2'']"
proof -
  have u: "uniqueImages_of [sample_image ''a'' ''1'', sample_image ''b'' ''2'', sample_image ''a'' ''3'']
             = [sample_image ''a'' ''1'', sample_image ''b'' ''2'']"
    by (simp add: uniqueImages_of_def sample_image_def)
  have f: "fst (filterDuplicates [sample_image ''a'' ''1'', sample_image ''b'' ''2'', sample_image ''a'' ''3''] {})
             = [sample_image ''a'' ''1'', sample_image ''b'' ''2'']"
    by (simp add: sample_image_def)
  have "sample_image ''a'' ''1'' \<in> set (uniqueImages_of
          [sample_image ''a'' ''1'', sample_image ''b'' ''2'', sample_image ''a'' ''3''])"
    by (simp only: u) simp
  then have "find (\<lambda>x. imageUrl x = imageUrl (sample_image ''a'' ''1''))
        [sample_image ''a'' ''1'', sample_image ''b'' ''2'', sample_image ''a'' ''3'']
       = Some (sample_image ''a'' ''1'')"
    using dedup_keeps_first_of_each_key
      [of "[sample_image ''a'' ''1'', sample_image ''b'' ''2'', sample_image ''a'' ''3'']"]
    by blast
  then show ?thesis using u f by blast
qed

text \<open>
  C1 as stated fails for filterDuplicates: two items share the empty address (or lack
  the image), and the output holds no item for that key.
\<close>

theorem filterDuplicates_empty_key_counterexample:
  "imageUrl (sample_image [] ''first'') = imageUrl (sample_image [] ''second'')
   \<and> fst (filterDuplicates [sample_image [] ''first'', sample_image [] ''second''] {}) = []
   \<and> fst (filterDuplicates [blank_item\<lparr>title := Some ''first''\<rparr>, blank_item\<lparr>title := Some ''second''\<rparr>] {}) = []"
  by (simp add: sample_image_def blank_item_def)

section \<open>Properties of the sorting step\<close>












section \<open>Properties of the query construction\<close>

lemma includes_str_sublist: "includes_str s w \<longleftrightarrow> sublist w s"
  by (induction s) (auto simp: sublist_Cons_right)

lemma sublist_across_blank:
  assumes "CHR '' '' \<notin> set w" "sublist w (a @ CHR '' '' # b)"
  shows "sublist w a \<or> sublist w b"
proof -
  from assms(2) consider "sublist w a" | "sublist w (CHR '' '' # b)"
    | xs1 xs2 where "w = xs1 @ xs2" "suffix xs1 a" "prefix xs2 (CHR '' '' # b)"
    unfolding sublist_append by blast
  then show ?thesis
  proof cases
    case 1
    then show ?thesis by simp
  next
    case 2
    then have "prefix w (CHR '' '' # b) \<or> sublist w b" by (simp add: sublist_Cons_right)
    moreover have "prefix w (CHR '' '' # b) \<Longrightarrow> w = []"
      using assms(1) by (cases w) auto
    ultimately show ?thesis by auto
  next
    case 3
    have "xs2 = []" using 3(1,3) assms(1) by (cases xs2) auto
    with 3 show ?thesis by auto
  qed
qed

text \<open>A text is clean when the nine letters \<^verbatim>\<open>undefined\<close> do not occur in it.\<close>

lemma clean_blank:
  "\<not> includes_str a ''undefined'' \<Longrightarrow> \<not> includes_str b ''undefined''
     \<Longrightarrow> \<not> includes_str (a @ CHR '' '' # b) ''undefined''"
  unfolding includes_str_sublist using sublist_across_blank[of "''undefined''" a b] by auto

lemma sublist_trim: "sublist (trim s) s"
proof -
  have "prefix (rev (dropWhile isSpace (rev (dropWhile isSpace s)))) (dropWhile isSpace s)"
    by (metis suffix_dropWhile suffix_to_prefix rev_rev_ident)
  then have "sublist (trim s) (dropWhile isSpace s)" by (simp add: trim_def)
  moreover have "sublist (dropWhile isSpace s) s" by simp
  ultimately show ?thesis by (rule sublist_order.order.trans)
qed

lemma clean_trim: "\<not> includes_str s ''undefined'' \<Longrightarrow> \<not> includes_str (trim s) ''undefined''"
  unfolding includes_str_sublist using sublist_trim sublist_order.order.trans by blast

lemma clean_join_blank:
  "\<forall>p \<in> set ps. \<not> includes_str p ''undefined'' \<Longrightarrow> \<not> includes_str (join_blank ps) ''undefined''"
proof (induction ps rule: join_blank.induct)
  case 1
  then show ?case by simp
next
  case (2 s)
  then show ?case by simp
next
  case (3 s t ts)
  then have "\<not> includes_str s ''undefined''" "\<not> includes_str (join_blank (t # ts)) ''undefined''"
    by auto
  from clean_blank[OF this] show ?case by simp
qed

lemma clean_filter_Boolean:
  "\<forall>x \<in> set xs. \<not> includes_str (or_else x []) ''undefined''
     \<Longrightarrow> \<forall>p \<in> set (filter_Boolean xs). \<not> includes_str p ''undefined''"
  by (auto simp: filter_Boolean_def)

lemma clean_literals:
  "\<not> includes_str ''design inspiration'' ''undefined''"
  "\<not> includes_str ''design'' ''undefined''"
  "\<not> includes_str ''Top industries using'' ''undefined''"
  "\<not> includes_str ''vector'' ''undefined''"
  "\<not> includes_str ''template'' ''undefined''"
  "\<not> includes_str ''inspiration'' ''undefined''"
  "\<not> includes_str ''site:pinterest.com'' ''undefined''"
  "\<not> includes_str [] ''undefined''"
  by simp_all

lemma clean_first_color:
  "\<forall>c \<in> set p. \<not> includes_str c ''undefined'' \<Longrightarrow> \<not> includes_str (first_color p) ''undefined''"
  by (cases p) (simp_all add: first_color_def)

lemma clean_paletteColor:
  assumes "\<not> includes_str (or_else c []) ''undefined''" "\<forall>x \<in> set p. \<not> includes_str x ''undefined''"
  shows "\<not> includes_str (or_else (js_or c (Some (first_color p))) []) ''undefined''"
proof (cases "truthy c")
  case True
  then show ?thesis using assms(1) by (simp add: js_or_def)
next
  case False
  have "or_else (Some (first_color p)) [] = first_color p" by simp
  then show ?thesis using False clean_first_color[OF assms(2)] by (simp add: js_or_def)
qed

lemma queries_S_clean:
  assumes "inputs_clean q r p"
  shows "\<forall>s \<in> set (queries_S_list (buildQueries_S q r p)). \<not> includes_str s ''undefined''"
proof -
  let ?I = "or_else (req_industry r) []" and ?F = "or_else (req_font r) []"
  let ?C = "or_else (req_color r) []" and ?D = "or_else (req_designStyle r) []"
  from assms have q: "\<not> includes_str q ''undefined''" and i: "\<not> includes_str ?I ''undefined''"
    and f: "\<not> includes_str ?F ''undefined''" and c: "\<not> includes_str ?C ''undefined''"
    and d: "\<not> includes_str ?D ''undefined''" and p: "\<forall>x \<in> set p. \<not> includes_str x ''undefined''"
    by (simp_all add: inputs_clean_def)
  have 1: "\<not> includes_str (industryFontQuery (buildQueries_S q r p)) ''undefined''"
  proof -
    have "industryFontQuery (buildQueries_S q r p) = q @ CHR '' '' # (?I @ CHR '' '' # (?F @ CHR '' '' # ''design inspiration''))"
      by (simp add: buildQueries_S_def)
    then show ?thesis
      using clean_blank[OF q clean_blank[OF i clean_blank[OF f clean_literals(1)]]] by simp
  qed
  have 2: "\<not> includes_str (colorStyleQuery (buildQueries_S q r p)) ''undefined''"
  proof -
    have "colorStyleQuery (buildQueries_S q r p) = q @ CHR '' '' # (?D @ CHR '' '' # (?C @ CHR '' '' # ''design inspiration''))"
      by (simp add: buildQueries_S_def)
    then show ?thesis
      using clean_blank[OF q clean_blank[OF d clean_blank[OF c clean_literals(1)]]] by simp
  qed
  have 3: "\<not> includes_str (topIndustriesQuery (buildQueries_S q r p)) ''undefined''"
  proof -
    have "topIndustriesQuery (buildQueries_S q r p) = ''Top industries using'' @ CHR '' '' # (?D @ CHR '' '' # ''design'')"
      by (simp add: buildQueries_S_def)
    then show ?thesis
      using clean_blank[OF clean_literals(3) clean_blank[OF d clean_literals(2)]] by simp
  qed
  have 4: "\<not> includes_str (mainFreepikQuery (buildQueries_S q r p)) ''undefined''"
  proof -
    have "mainFreepikQuery (buildQueries_S q r p) = trim (q @ CHR '' '' # (?I @ CHR '' '' # ?D))"
      by (simp add: buildQueries_S_def)
    then show ?thesis
      using clean_trim[OF clean_blank[OF q clean_blank[OF i d]]] by simp
  qed
  have 5: "\<not> includes_str (colorFreepikQuery (buildQueries_S q r p)) ''undefined''"
  proof (cases "p = []")
    case True
    then have "colorFreepikQuery (buildQueries_S q r p) = trim (q @ CHR '' '' # ?C)"
      by (simp add: buildQueries_S_def)
    then show ?thesis using clean_trim[OF clean_blank[OF q c]] by simp
  next
    case False
    then have "colorFreepikQuery (buildQueries_S q r p) = trim (q @ CHR '' '' # first_color p)"
      by (simp add: buildQueries_S_def)
    then show ?thesis using clean_trim[OF clean_blank[OF q clean_first_color[OF p]]] by simp
  qed
  have 6: "\<not> includes_str (vectorFreepikQuery (buildQueries_S q r p)) ''undefined''"
  proof -
    have "vectorFreepikQuery (buildQueries_S q r p) = trim (q @ CHR '' '' # ?D)"
      by (simp add: buildQueries_S_def)
    then show ?thesis using clean_trim[OF clean_blank[OF q d]] by simp
  qed
  have 7: "\<not> includes_str (psdFreepikQuery (buildQueries_S q r p)) ''undefined''"
  proof -
    have "psdFreepikQuery (buildQueries_S q r p) = trim (q @ CHR '' '' # ?I)"
      by (simp add: buildQueries_S_def)
    then show ?thesis using clean_trim[OF clean_blank[OF q i]] by simp
  qed
  show ?thesis using 1 2 3 4 5 6 7 by (simp add: queries_S_list_def)
qed

lemma clean_joined:
  "\<forall>x \<in> set xs. \<not> includes_str (or_else x []) ''undefined''
     \<Longrightarrow> \<not> includes_str (join_blank (filter_Boolean xs)) ''undefined''"
  using clean_join_blank clean_filter_Boolean by blast

lemma queries_B_clean:
  assumes "inputs_clean q r p"
  shows "\<forall>s \<in> set (queries_B_list (buildQueries_B q r p)). \<not> includes_str s ''undefined''"
proof -
  from assms have q: "\<not> includes_str (or_else (Some q) []) ''undefined''"
    and i: "\<not> includes_str (or_else (req_industry r) []) ''undefined''"
    and f: "\<not> includes_str (or_else (req_font r) []) ''undefined''"
    and c: "\<not> includes_str (or_else (req_color r) []) ''undefined''"
    and d: "\<not> includes_str (or_else (req_designStyle r) []) ''undefined''"
    and p: "\<forall>x \<in> set p. \<not> includes_str x ''undefined''"
    by (simp_all add: inputs_clean_def)
  note pc = clean_paletteColor[OF c p]
  have 1: "\<not> includes_str (enhancedQuery (buildQueries_B q r p)) ''undefined''"
    using clean_joined[of "[Some q, req_industry r, req_font r, req_designStyle r, Some ''design inspiration'']"]
      q i f d by (simp add: buildQueries_B_def Let_def)
  have 2: "\<not> includes_str (colorQuery (buildQueries_B q r p)) ''undefined''"
    using clean_joined[of "[Some q, req_industry r, js_or (req_color r) (Some (first_color p)), req_designStyle r, Some ''design'']"]
      q i pc d by (simp add: buildQueries_B_def Let_def)
  have 3: "\<not> includes_str (mainFreepikQuery_B (buildQueries_B q r p)) ''undefined''"
    using clean_joined[of "[Some q, req_industry r, req_designStyle r, req_font r]"]
      q i f d by (simp add: buildQueries_B_def Let_def)
  have 4: "\<not> includes_str (colorFreepikQuery_B (buildQueries_B q r p)) ''undefined''"
    using clean_joined[of "[Some q, req_industry r, js_or (req_color r) (Some (first_color p))]"]
      q i pc by (simp add: buildQueries_B_def Let_def)
  have 5: "\<not> includes_str (vectorQuery_B (buildQueries_B q r p)) ''undefined''"
    using clean_joined[of "[Some q, req_designStyle r, Some ''vector'']"]
      q d by (simp add: buildQueries_B_def Let_def)
  have 6: "\<not> includes_str (psdQuery_B (buildQueries_B q r p)) ''undefined''"
    using clean_joined[of "[Some q, req_industry r, Some ''template'']"]
      q i by (simp add: buildQueries_B_def Let_def)
  have 7: "\<not> includes_str (aiPrompt_B (buildQueries_B q r p)) ''undefined''"
    using clean_joined[of "[Some q, req_industry r, req_designStyle r, req_font r, req_color r]"]
      q i f d c by (simp add: buildQueries_B_def Let_def)
  have 8: "\<not> includes_str (pinterestMainQuery (buildQueries_B q r p)) ''undefined''"
  proof -
    have j: "\<not> includes_str (join_blank (filter_Boolean
             [Some q, req_industry r, req_designStyle r, req_font r, Some ''design''])) ''undefined''"
      using clean_joined[of "[Some q, req_industry r, req_designStyle r, req_font r, Some ''design'']"]
        q i f d by simp
    have "pinterestMainQuery (buildQueries_B q r p) = join_blank (filter_Boolean
             [Some q, req_industry r, req_designStyle r, req_font r, Some ''design'']) @ CHR '' '' # ''site:pinterest.com''"
      by (simp add: buildQueries_B_def Let_def)
    then show ?thesis using clean_blank[OF j clean_literals(7)] by simp
  qed
  have 9: "\<not> includes_str (pinterestAlternateQuery (buildQueries_B q r p)) ''undefined''"
  proof -
    have j: "\<not> includes_str (join_blank (filter_Boolean
             [Some q, req_industry r, Some ''inspiration''])) ''undefined''"
      using clean_joined[of "[Some q, req_industry r, Some ''inspiration'']"] q i by simp
    have "pinterestAlternateQuery (buildQueries_B q r p) = join_blank (filter_Boolean
             [Some q, req_industry r, Some ''inspiration'']) @ CHR '' '' # ''site:pinterest.com''"
      by (simp add: buildQueries_B_def Let_def)
    then show ?thesis using clean_blank[OF j clean_literals(7)] by simp
  qed
  show ?thesis using 1 2 3 4 5 6 7 8 9 by (simp add: queries_B_list_def)
qed

lemma filter_Boolean_strings:
  "filter_Boolean xs = filter (\<lambda>s. s \<noteq> []) (map (\<lambda>x. or_else x []) xs)"
proof (induction xs)
  case Nil
  then show ?case by (simp add: filter_Boolean_def)
next
  case (Cons x xs)
  then show ?case by (cases x) (auto simp: filter_Boolean_def)
qed

lemma or_else_js_or:
  "or_else (js_or c (Some d)) [] = (if or_else c [] = [] then d else or_else c [])"
  by (cases c) (auto simp: js_or_def)

text \<open>
  The queries depend on the request only through the texts that the optional fields
  stand for, the empty text standing for an absent field.
\<close>

lemma queries_S_depend_on_texts:
  assumes "or_else (req_industry r1) [] = or_else (req_industry r2) []"
    "or_else (req_font r1) [] = or_else (req_font r2) []"
    "or_else (req_color r1) [] = or_else (req_color r2) []"
    "or_else (req_designStyle r1) [] = or_else (req_designStyle r2) []"
  shows "buildQueries_S q r1 p = buildQueries_S q r2 p"
  using assms by (simp add: buildQueries_S_def)

lemma queries_B_depend_on_texts:
  assumes "or_else (req_industry r1) [] = or_else (req_industry r2) []"
    "or_else (req_font r1) [] = or_else (req_font r2) []"
    "or_else (req_color r1) [] = or_else (req_color r2) []"
    "or_else (req_designStyle r1) [] = or_else (req_designStyle r2) []"
  shows "buildQueries_B q r1 p = buildQueries_B q r2 p"
  using assms by (simp add: buildQueries_B_def filter_Boolean_strings or_else_js_or Let_def)

lemma all_absent_S:
  "industryFontQuery (buildQueries_S q (r\<lparr>req_industry := None, req_font := None\<rparr>) p) = q @ ''   design inspiration''"
  by (simp add: buildQueries_S_def)

lemma all_absent_B:
  "q \<noteq> [] \<Longrightarrow> enhancedQuery (buildQueries_B q (r\<lparr>req_industry := None, req_font := None, req_designStyle := None\<rparr>) p)
     = q @ '' design inspiration''"
  by (simp add: buildQueries_B_def filter_Boolean_strings Let_def)

text \<open>
  C8. The query builder is a function of the request fields: two requests whose optional
  fields stand for the same texts (an absent field standing for the empty text) get the
  same query strings, in server.js and in the third variant. When no text handed to the
  builder holds the letters \<^verbatim>\<open>undefined\<close> itself, no query string holds them, so an
  absent field is never rendered as \<^verbatim>\<open>undefined\<close>; the two last parts show an
  absent field left out of a template and of a joined list.
\<close>

theorem queries_are_pure_and_omit_absent_fields:
  "(or_else (req_industry r1) [] = or_else (req_industry r2) []
      \<and> or_else (req_font r1) [] = or_else (req_font r2) []
      \<and> or_else (req_color r1) [] = or_else (req_color r2) []
      \<and> or_else (req_designStyle r1) [] = or_else (req_designStyle r2) []
     \<longrightarrow> buildQueries_S q r1 p = buildQueries_S q r2 p \<and> buildQueries_B q r1 p = buildQueries_B q r2 p)
   \<and> (inputs_clean q r p
     \<longrightarrow> (\<forall>s \<in> set (queries_S_list (buildQueries_S q r p)). \<not> includes_str s ''undefined'')
       \<and> (\<forall>s \<in> set (queries_B_list (buildQueries_B q r p)). \<not> includes_str s ''undefined''))
   \<and> industryFontQuery (buildQueries_S q (r\<lparr>req_industry := None, req_font := None\<rparr>) p)
       = q @ ''   design inspiration''
   \<and> (q \<noteq> []
     \<longrightarrow> enhancedQuery (buildQueries_B q (r\<lparr>req_industry := None, req_font := None, req_designStyle := None\<rparr>) p)
          = q @ '' design inspiration'')"
proof (intro conjI impI)
  assume a: "or_else (req_industry r1) [] = or_else (req_industry r2) []
      \<and> or_else (req_font r1) [] = or_else (req_font r2) []
      \<and> or_else (req_color r1) [] = or_else (req_color r2) []
      \<and> or_else (req_designStyle r1) [] = or_else (req_designStyle r2) []"
  then show "buildQueries_S q r1 p = buildQueries_S q r2 p"
    using queries_S_depend_on_texts by blast
  from a show "buildQueries_B q r1 p = buildQueries_B q r2 p"
    using queries_B_depend_on_texts by blast
next
  assume "inputs_clean q r p"
  then show "\<forall>s \<in> set (queries_S_list (buildQueries_S q r p)). \<not> includes_str s ''undefined''"
    by (rule queries_S_clean)
next
  assume "inputs_clean q r p"
  then show "\<forall>s \<in> set (queries_B_list (buildQueries_B q r p)). \<not> includes_str s ''undefined''"
    by (rule queries_B_clean)
next
  show "industryFontQuery (buildQueries_S q (r\<lparr>req_industry := None, req_font := None\<rparr>) p)
       = q @ ''   design inspiration''"
    by (rule all_absent_S)
next
  assume "q \<noteq> []"
  then show "enhancedQuery (buildQueries_B q (r\<lparr>req_industry := None, req_font := None, req_designStyle := None\<rparr>) p)
          = q @ '' design inspiration''"
    by (rule all_absent_B)
qed

theorem queries_are_pure_and_omit_absent_fields_witness:
  "buildQueries_S ''logo'' (empty_request\<lparr>req_font := None\<rparr>) []
     = buildQueries_S ''logo'' (empty_request\<lparr>req_font := Some []\<rparr>) []
   \<and> buildQueries_B ''logo'' (empty_request\<lparr>req_font := None\<rparr>) []
     = buildQueries_B ''logo'' (empty_request\<lparr>req_font := Some []\<rparr>) []
   \<and> \<not> includes_str (industryFontQuery (buildQueries_S ''logo'' empty_request [])) ''undefined''
   \<and> \<not> includes_str (enhancedQuery (buildQueries_B ''logo'' empty_request [])) ''undefined''
   \<and> enhancedQuery (buildQueries_B ''logo''
        (empty_request\<lparr>req_industry := None, req_font := None, req_designStyle := None\<rparr>) [])
       = ''logo design inspiration''"
proof -
  note T = queries_are_pure_and_omit_absent_fields
      [of "empty_request\<lparr>req_font := None\<rparr>" "empty_request\<lparr>req_font := Some []\<rparr>"
          "''logo''" "[]" empty_request]
  have c: "inputs_clean ''logo'' empty_request []"
    by (simp add: inputs_clean_def empty_request_def)
  have n: "''logo'' \<noteq> []" by simp
  have e: "or_else (req_industry (empty_request\<lparr>req_font := None\<rparr>)) []
             = or_else (req_industry (empty_request\<lparr>req_font := Some []\<rparr>)) []
      \<and> or_else (req_font (empty_request\<lparr>req_font := None\<rparr>)) []
             = or_else (req_font (empty_request\<lparr>req_font := Some []\<rparr>)) []
      \<and> or_else (req_color (empty_request\<lparr>req_font := None\<rparr>)) []
             = or_else (req_color (empty_request\<lparr>req_font := Some []\<rparr>)) []
      \<and> or_else (req_designStyle (empty_request\<lparr>req_font := None\<rparr>)) []
             = or_else (req_designStyle (empty_request\<lparr>req_font := Some []\<rparr>)) []"
    by simp
  from T e have 1: "buildQueries_S ''logo'' (empty_request\<lparr>req_font := None\<rparr>) []
     = buildQueries_S ''logo'' (empty_request\<lparr>req_font := Some []\<rparr>) []
   \<and> buildQueries_B ''logo'' (empty_request\<lparr>req_font := None\<rparr>) []
     = buildQueries_B ''logo'' (empty_request\<lparr>req_font := Some []\<rparr>) []"
    by blast
  from T c have 2: "\<forall>s \<in> set (queries_S_list (buildQueries_S ''logo'' empty_request [])).
                      \<not> includes_str s ''undefined''"
    and 3: "\<forall>s \<in> set (queries_B_list (buildQueries_B ''logo'' empty_request [])).
                      \<not> includes_str s ''undefined''"
    by blast+
  have 4: "industryFontQuery (buildQueries_S ''logo'' empty_request [])
             \<in> set (queries_S_list (buildQueries_S ''logo'' empty_request []))"
    and 5: "enhancedQuery (buildQueries_B ''logo'' empty_request [])
             \<in> set (queries_B_list (buildQueries_B ''logo'' empty_request []))"
    by (simp_all add: queries_S_list_def queries_B_list_def)
  from T n have 6: "enhancedQuery (buildQueries_B ''logo''
        (empty_request\<lparr>req_industry := None, req_font := None, req_designStyle := None\<rparr>) [])
       = ''logo'' @ '' design inspiration''"
    by blast
  show ?thesis using 1 2 3 4 5 6 by auto
qed

section \<open>Properties of the adapters\<close>

lemma catch_empty_resolves: "\<exists>v. catch_empty x = Inr v"
  by (cases x) simp_all

lemma catch_empty_failure: "x = Inl e \<Longrightarrow> catch_empty x = Inr []"
  by simp

lemma fetchSerpAPIImages_resolves: "\<exists>v. fetchSerpAPIImages get head limit = Inr v"
  by (simp add: fetchSerpAPIImages_def catch_empty_resolves)

lemma fetchFreepikImages_resolves: "\<exists>v. fetchFreepikImages get query limit fmt = Inr v"
  by (simp add: fetchFreepikImages_def catch_empty_resolves)

lemma fetchFreepikAIImage_resolves: "\<exists>v. fetchFreepikAIImage post prompt seed = Inr v"
  by (simp add: fetchFreepikAIImage_def catch_empty_resolves)



lemma fetchGoogleImages_resolves: "\<exists>v. fetchGoogleImages get query limit = Inr v"
  by (simp add: fetchGoogleImages_def catch_empty_resolves)


lemma fetchDesignPlatformsInspiration_resolves: "\<exists>v. fetchDesignPlatformsInspiration get q r limit = Inr v"
  by (simp add: fetchDesignPlatformsInspiration_def catch_empty_resolves)

lemma fetchFreepikImages_B_resolves: "\<exists>v. fetchFreepikImages_B get query limit fmt = Inr v"
  by (simp add: fetchFreepikImages_B_def catch_empty_resolves)

lemma fetchFreepikAIImage_B_resolves: "\<exists>v. fetchFreepikAIImage_B post prompt seed = Inr v"
  by (simp add: fetchFreepikAIImage_B_def catch_empty_resolves)

lemma promise_all_resolved:
  "\<forall>p \<in> set ps. \<exists>v. p = Inr v \<Longrightarrow> \<exists>vs. promise_all ps = Inr vs \<and> length vs = length ps"
proof (induction ps)
  case Nil
  then show ?case by simp
next
  case (Cons p ps)
  then obtain v where p: "p = Inr v" by auto
  from Cons obtain vs where "promise_all ps = Inr vs" "length vs = length ps" by auto
  with p show ?case by simp
qed

lemma fanout_S_resolves: "\<exists>rs. promise_all (fanout_S up qs) = Inr rs \<and> length rs = 7"
proof -
  have "\<forall>p \<in> set (fanout_S up qs). \<exists>v. p = Inr v"
    using fetchSerpAPIImages_resolves fetchFreepikImages_resolves by (simp add: fanout_S_def)
  moreover have "length (fanout_S up qs) = 7" by (simp add: fanout_S_def)
  ultimately show ?thesis using promise_all_resolved[of "fanout_S up qs"] by auto
qed

lemma fanout_B_resolves: "\<exists>rs. promise_all (fanout_B up q r qs) = Inr rs \<and> length rs = 7"
proof -
  have "\<forall>p \<in> set (fanout_B up q r qs). \<exists>v. p = Inr v"
    using fetchGoogleImages_resolves fetchFreepikImages_B_resolves fetchDesignPlatformsInspiration_resolves
    by (simp add: fanout_B_def)
  moreover have "length (fanout_B up q r qs) = 7" by (simp add: fanout_B_def)
  ultimately show ?thesis using promise_all_resolved[of "fanout_B up q r qs"] by auto
qed

section \<open>Properties of the handlers\<close>

lemma search_S_invalid: "\<not> truthy (req_q r) \<Longrightarrow> search_S up r = (Status400 ''Query is required'', [])"
  by (simp add: search_S_def)

lemma search_A_invalid: "\<not> truthy (req_q r) \<Longrightarrow> search_A up r = (Status400 ''Query is required'', [])"
  by (simp add: search_A_def)


lemma search_B_invalid: "\<not> truthy (req_q r) \<Longrightarrow> search_B up r = (Status400 ''Query is required'', [])"
  by (simp add: search_B_def)



text \<open>The answer of server.js to a valid request.\<close>

lemma search_S_valid:
  assumes "truthy (req_q r)"
  shows "\<exists>rs ai b.
           promise_all (fanout_S up (request_queries_S up r)) = Inr rs
         \<and> (if req_ai r = Some ''true''
             then fetchFreepikAIImage (up_freepik_ai up) (or_else (req_q r) []) (up_seed up) = Inr ai
             else ai = [])
         \<and> body_images b = allImages_S rs ai
         \<and> search_S up r =
             (Status200 b,
              GetDesignSuggestions (or_else (req_q r) []) (req_industry r) (req_font r) (req_color r)
                  (req_designStyle r)
                # fanout_calls_S (request_queries_S up r)
                @ (if req_ai r = Some ''true'' then [FetchFreepikAIImage (or_else (req_q r) [])] else []))"
proof -
  obtain rs where rs: "promise_all (fanout_S up (request_queries_S up r)) = Inr rs"
    using fanout_S_resolves by blast
  obtain v where v: "fetchFreepikAIImage (up_freepik_ai up) (or_else (req_q r) []) (up_seed up) = Inr v"
    using fetchFreepikAIImage_resolves by blast
  show ?thesis
  proof (cases "req_ai r = Some ''true''")
    case True
    then show ?thesis using assms rs v
      by (simp add: search_S_def Let_def request_queries_S_def palette_S_def)
  next
    case False
    then show ?thesis using assms rs
      by (simp add: search_S_def Let_def request_queries_S_def palette_S_def)
  qed
qed

lemma search_A_valid:
  assumes "truthy (req_q r)"
  shows "\<exists>rs ai b.
           promise_all (fanout_S up (request_queries_A up r)) = Inr rs
         \<and> (if req_ai r = Some ''true''
             then fetchFreepikAIImage (up_freepik_ai up) (or_else (req_q r) []) (up_seed up) = Inr ai
             else ai = [])
         \<and> body_images b = allImages_A rs ai
         \<and> search_A up r =
             (Status200 b,
              GetDesignSuggestions (or_else (req_q r) []) (req_industry r) (req_font r) (req_color r)
                  (req_designStyle r)
                # fanout_calls_S (request_queries_A up r)
                @ (if req_ai r = Some ''true'' then [FetchFreepikAIImage (or_else (req_q r) [])] else []))"
proof -
  obtain rs where rs: "promise_all (fanout_S up (request_queries_A up r)) = Inr rs"
    using fanout_S_resolves by blast
  obtain v where v: "fetchFreepikAIImage (up_freepik_ai up) (or_else (req_q r) []) (up_seed up) = Inr v"
    using fetchFreepikAIImage_resolves by blast
  show ?thesis
  proof (cases "req_ai r = Some ''true''")
    case True
    then show ?thesis using assms rs v
      by (simp add: search_A_def Let_def request_queries_A_def palette_A_def)
  next
    case False
    then show ?thesis using assms rs
      by (simp add: search_A_def Let_def request_queries_A_def palette_A_def)
  qed
qed

lemma search_B_valid:
  assumes "truthy (req_q r)"
  shows "\<exists>rs ai b.
           promise_all (fanout_B up (or_else (req_q r) []) r (request_queries_B up r)) = Inr rs
         \<and> (if req_ai r = Some ''true''
             then fetchFreepikAIImage_B (upB_freepik_ai up) (aiPrompt_B (request_queries_B up r)) (upB_seed up) = Inr ai
             else ai = [])
         \<and> body_images b = allImages_deduplicated (results_B rs ai)
         \<and> search_B up r =
             (Status200 b,
              GetDesignSuggestions (or_else (req_q r) []) (req_industry r) (req_font r) (req_color r)
                  (req_designStyle r)
                # fanout_calls_B (or_else (req_q r) []) r (request_queries_B up r)
                @ (if req_ai r = Some ''true'' then [FetchFreepikAIImage (aiPrompt_B (request_queries_B up r))] else []))"
proof -
  obtain rs where rs: "promise_all (fanout_B up (or_else (req_q r) []) r (request_queries_B up r)) = Inr rs"
    using fanout_B_resolves by blast
  obtain v where v: "fetchFreepikAIImage_B (upB_freepik_ai up) (aiPrompt_B (request_queries_B up r)) (upB_seed up) = Inr v"
    using fetchFreepikAIImage_B_resolves by blast
  show ?thesis
  proof (cases "req_ai r = Some ''true''")
    case True
    then show ?thesis using assms rs v
      by (simp add: search_B_def Let_def request_queries_B_def palette_B_def)
  next
    case False
    then show ?thesis using assms rs
      by (simp add: search_B_def Let_def request_queries_B_def palette_B_def)
  qed
qed

lemma ai_call_not_in_fanout_S: "FetchFreepikAIImage p \<notin> set (fanout_calls_S qs)"
  by (simp add: fanout_calls_S_def)

lemma ai_call_not_in_fanout_B: "FetchFreepikAIImage p \<notin> set (fanout_calls_B q r qs)"
  by (simp add: fanout_calls_B_def)

lemma no_ai_category_S:
  "i \<in> set (allImages_S rs []) \<Longrightarrow> category i \<noteq> Some ''AI Generated Designs''"
  by (auto simp: allImages_S_def with_category_def with_category_format_def)

lemma no_ai_category_A:
  "i \<in> set (allImages_A rs []) \<Longrightarrow> category i \<noteq> Some ''AI Generated Designs''"
  by (auto simp: allImages_A_def with_category_def with_category_format_def)

lemma allImages_deduplicated_groups:
  "\<exists>a b c d e f. filtered_groups r = [a, b, c, d, e, f]
      \<and> f = fst (filterDuplicates (freepikAIResults r)
                 (snd (filterDuplicates (designPlatformsResults r @ enhancedResults r @ colorResults r
                        @ freepikMainResults r @ freepikColorResults r @ freepikVectorResults r
                        @ freepikPsdResults r) {})))"
  by (simp add: filtered_groups_def split_beta filterDuplicates_append)

lemma no_ai_category_B:
  assumes "freepikAIResults r = []" "i \<in> set (allImages_deduplicated r)"
  shows "category i \<noteq> Some ''AI Generated Designs''"
proof -
  obtain a b c d e f where g: "filtered_groups r = [a, b, c, d, e, f]" and f: "f = []"
    using allImages_deduplicated_groups[of r] assms(1) by auto
  with assms(2) show ?thesis
    by (auto simp: allImages_deduplicated_def with_category_def with_category_format_def)
qed






lemma ai_call_S:
  assumes "truthy (req_q r)"
  shows "(\<exists>p. FetchFreepikAIImage p \<in> set (snd (search_S up r))) \<longleftrightarrow> req_ai r = Some ''true''"
    and "FetchFreepikAIImage (or_else (req_q r) []) \<in> set (snd (search_S up r)) \<longleftrightarrow> req_ai r = Some ''true''"
  using search_S_valid[OF assms, of up] ai_call_not_in_fanout_S by auto

lemma ai_call_A:
  assumes "truthy (req_q r)"
  shows "(\<exists>p. FetchFreepikAIImage p \<in> set (snd (search_A up r))) \<longleftrightarrow> req_ai r = Some ''true''"
  using search_A_valid[OF assms, of up] ai_call_not_in_fanout_S by auto

lemma ai_call_B:
  assumes "truthy (req_q r)"
  shows "(\<exists>p. FetchFreepikAIImage p \<in> set (snd (search_B up r))) \<longleftrightarrow> req_ai r = Some ''true''"
  using search_B_valid[OF assms, of up] ai_call_not_in_fanout_B by auto

lemma no_ai_call_S: "req_ai r \<noteq> Some ''true'' \<Longrightarrow> FetchFreepikAIImage p \<notin> set (snd (search_S up r))"
proof (cases "truthy (req_q r)")
  case True
  assume "req_ai r \<noteq> Some ''true''"
  then show ?thesis using ai_call_S(1)[OF True, of up] by blast
next
  case False
  then show ?thesis by (simp add: search_S_invalid)
qed

lemma no_ai_call_A: "req_ai r \<noteq> Some ''true'' \<Longrightarrow> FetchFreepikAIImage p \<notin> set (snd (search_A up r))"
proof (cases "truthy (req_q r)")
  case True
  assume "req_ai r \<noteq> Some ''true''"
  then show ?thesis using ai_call_A[OF True, of up] by blast
next
  case False
  then show ?thesis by (simp add: search_A_invalid)
qed

lemma no_ai_call_B: "req_ai r \<noteq> Some ''true'' \<Longrightarrow> FetchFreepikAIImage p \<notin> set (snd (search_B up r))"
proof (cases "truthy (req_q r)")
  case True
  assume "req_ai r \<noteq> Some ''true''"
  then show ?thesis using ai_call_B[OF True, of up] by blast
next
  case False
  then show ?thesis by (simp add: search_B_invalid)
qed

lemma no_ai_items_S:
  assumes "req_ai r \<noteq> Some ''true''" "fst (search_S up r) = Status200 b" "i \<in> set (body_images b)"
  shows "category i \<noteq> Some ''AI Generated Designs''"
proof (cases "truthy (req_q r)")
  case True
  from search_S_valid[OF True, of up] assms(1,2) obtain rs where "body_images b = allImages_S rs []"
    by auto
  with assms(3) show ?thesis using no_ai_category_S by auto
next
  case False
  with assms(2) show ?thesis by (simp add: search_S_invalid)
qed

lemma no_ai_items_A:
  assumes "req_ai r \<noteq> Some ''true''" "fst (search_A up r) = Status200 b" "i \<in> set (body_images b)"
  shows "category i \<noteq> Some ''AI Generated Designs''"
proof (cases "truthy (req_q r)")
  case True
  from search_A_valid[OF True, of up] assms(1,2) obtain rs where "body_images b = allImages_A rs []"
    by auto
  with assms(3) show ?thesis using no_ai_category_A by auto
next
  case False
  with assms(2) show ?thesis by (simp add: search_A_invalid)
qed

lemma no_ai_items_B:
  assumes "req_ai r \<noteq> Some ''true''" "fst (search_B up r) = Status200 b" "i \<in> set (body_images b)"
  shows "category i \<noteq> Some ''AI Generated Designs''"
proof (cases "truthy (req_q r)")
  case True
  from search_B_valid[OF True, of up] assms(1,2) obtain rs
    where "body_images b = allImages_deduplicated (results_B rs [])"
    by auto
  moreover have "freepikAIResults (results_B rs []) = []" by (simp add: results_B_def)
  ultimately show ?thesis using assms(3) no_ai_category_B by auto
next
  case False
  with assms(2) show ?thesis by (simp add: search_B_invalid)
qed

text \<open>
  C9. In server.js and in the first and third variants of part_000, a request that passes the
  validation of \<^verbatim>\<open>q\<close> calls the AI image adapter if and only if its \<^verbatim>\<open>ai\<close>
  parameter is exactly the text \<^verbatim>\<open>true\<close>. For every other value of \<^verbatim>\<open>ai\<close>,
  absent included, no request at all calls that adapter, and the response holds no item of
  the category of the AI-generated designs.
\<close>

theorem ai_adapter_is_gated:
  "(truthy (req_q r) \<longrightarrow>
      ((\<exists>p. FetchFreepikAIImage p \<in> set (snd (search_S up r))) \<longleftrightarrow> req_ai r = Some ''true'')
    \<and> ((\<exists>p. FetchFreepikAIImage p \<in> set (snd (search_A up r))) \<longleftrightarrow> req_ai r = Some ''true'')
    \<and> ((\<exists>p. FetchFreepikAIImage p \<in> set (snd (search_B upb r))) \<longleftrightarrow> req_ai r = Some ''true''))
   \<and> (req_ai r \<noteq> Some ''true'' \<longrightarrow>
      (\<forall>p. FetchFreepikAIImage p \<notin> set (snd (search_S up r)))
    \<and> (\<forall>p. FetchFreepikAIImage p \<notin> set (snd (search_A up r)))
    \<and> (\<forall>p. FetchFreepikAIImage p \<notin> set (snd (search_B upb r)))
    \<and> (\<forall>b. fst (search_S up r) = Status200 b
           \<longrightarrow> (\<forall>i \<in> set (body_images b). category i \<noteq> Some ''AI Generated Designs''))
    \<and> (\<forall>b. fst (search_A up r) = Status200 b
           \<longrightarrow> (\<forall>i \<in> set (body_images b). category i \<noteq> Some ''AI Generated Designs''))
    \<and> (\<forall>b. fst (search_B upb r) = Status200 b
           \<longrightarrow> (\<forall>i \<in> set (body_images b). category i \<noteq> Some ''AI Generated Designs'')))"
proof (intro conjI impI allI ballI)
  assume a: "truthy (req_q r)"
  show "(\<exists>p. FetchFreepikAIImage p \<in> set (snd (search_S up r))) \<longleftrightarrow> req_ai r = Some ''true''"
    using a by (rule ai_call_S(1))
  show "(\<exists>p. FetchFreepikAIImage p \<in> set (snd (search_A up r))) \<longleftrightarrow> req_ai r = Some ''true''"
    using a by (rule ai_call_A)
  show "(\<exists>p. FetchFreepikAIImage p \<in> set (snd (search_B upb r))) \<longleftrightarrow> req_ai r = Some ''true''"
    using a by (rule ai_call_B)
next
  fix p assume "req_ai r \<noteq> Some ''true''"
  then show "FetchFreepikAIImage p \<notin> set (snd (search_S up r))" by (rule no_ai_call_S)
next
  fix p assume "req_ai r \<noteq> Some ''true''"
  then show "FetchFreepikAIImage p \<notin> set (snd (search_A up r))" by (rule no_ai_call_A)
next
  fix p assume "req_ai r \<noteq> Some ''true''"
  then show "FetchFreepikAIImage p \<notin> set (snd (search_B upb r))" by (rule no_ai_call_B)
next
  fix b i assume "req_ai r \<noteq> Some ''true''" "fst (search_S up r) = Status200 b" "i \<in> set (body_images b)"
  then show "category i \<noteq> Some ''AI Generated Designs''" by (rule no_ai_items_S)
next
  fix b i assume "req_ai r \<noteq> Some ''true''" "fst (search_A up r) = Status200 b" "i \<in> set (body_images b)"
  then show "category i \<noteq> Some ''AI Generated Designs''" by (rule no_ai_items_A)
next
  fix b i assume "req_ai r \<noteq> Some ''true''" "fst (search_B upb r) = Status200 b" "i \<in> set (body_images b)"
  then show "category i \<noteq> Some ''AI Generated Designs''" by (rule no_ai_items_B)
qed

theorem ai_adapter_is_gated_witness:
  "(\<exists>p. FetchFreepikAIImage p \<in> set (snd (search_S failing_upstream_S
        (empty_request\<lparr>req_q := Some ''logo'', req_ai := Some ''true''\<rparr>))))
   \<and> (\<forall>p. FetchFreepikAIImage p \<notin> set (snd (search_S failing_upstream_S
        (empty_request\<lparr>req_q := Some ''logo'', req_ai := Some ''TRUE''\<rparr>))))
   \<and> (\<forall>p. FetchFreepikAIImage p \<notin> set (snd (search_B failing_upstream_B
        (empty_request\<lparr>req_q := Some ''logo'', req_ai := Some ''1''\<rparr>))))
   \<and> (\<forall>p. FetchFreepikAIImage p \<notin> set (snd (search_S failing_upstream_S
        (empty_request\<lparr>req_q := Some ''logo''\<rparr>))))"
proof -
  have q: "truthy (req_q (empty_request\<lparr>req_q := Some ''logo'', req_ai := Some ''true''\<rparr>))" by simp
  have t: "req_ai (empty_request\<lparr>req_q := Some ''logo'', req_ai := Some ''true''\<rparr>) = Some ''true''" by simp
  have 1: "req_ai (empty_request\<lparr>req_q := Some ''logo'', req_ai := Some ''TRUE''\<rparr>) \<noteq> Some ''true''" by simp
  have 2: "req_ai (empty_request\<lparr>req_q := Some ''logo'', req_ai := Some ''1''\<rparr>) \<noteq> Some ''true''" by simp
  have 3: "req_ai (empty_request\<lparr>req_q := Some ''logo''\<rparr>) \<noteq> Some ''true''"
    by (simp add: empty_request_def)
  have A: "\<exists>p. FetchFreepikAIImage p \<in> set (snd (search_S failing_upstream_S
        (empty_request\<lparr>req_q := Some ''logo'', req_ai := Some ''true''\<rparr>)))"
    using ai_adapter_is_gated[of "empty_request\<lparr>req_q := Some ''logo'', req_ai := Some ''true''\<rparr>"
            failing_upstream_S failing_upstream_B] q t
    by blast
  have B: "\<forall>p. FetchFreepikAIImage p \<notin> set (snd (search_S failing_upstream_S
        (empty_request\<lparr>req_q := Some ''logo'', req_ai := Some ''TRUE''\<rparr>)))"
    using ai_adapter_is_gated[of "empty_request\<lparr>req_q := Some ''logo'', req_ai := Some ''TRUE''\<rparr>"
            failing_upstream_S failing_upstream_B] 1
    by blast
  have C: "\<forall>p. FetchFreepikAIImage p \<notin> set (snd (search_B failing_upstream_B
        (empty_request\<lparr>req_q := Some ''logo'', req_ai := Some ''1''\<rparr>)))"
    using ai_adapter_is_gated[of "empty_request\<lparr>req_q := Some ''logo'', req_ai := Some ''1''\<rparr>"
            failing_upstream_S failing_upstream_B] 2
    by blast
  have D: "\<forall>p. FetchFreepikAIImage p \<notin> set (snd (search_S failing_upstream_S
        (empty_request\<lparr>req_q := Some ''logo''\<rparr>)))"
    using ai_adapter_is_gated[of "empty_request\<lparr>req_q := Some ''logo''\<rparr>"
            failing_upstream_S failing_upstream_B] 3
    by blast
  show ?thesis using A B C D by (intro conjI)
qed

section \<open>The settle-all join of updatedserver.txt\<close>




















lemma try_map_null: "None \<in> set es \<Longrightarrow> \<exists>err. try_map f es = Inl err"
proof (induction es)
  case Nil
  then show ?case by simp
next
  case (Cons e es)
  then show ?case by (cases e) (auto split: sum.splits)
qed
















section \<open>The deduplication leaves the items as they are\<close>

lemma untagged_with_category: "untagged (with_category c img) = untagged img"
  by (simp add: untagged_def with_category_def)

lemma untagged_with_category_format: "untagged (with_category_format c f img) = untagged img"
  by (simp add: untagged_def with_category_format_def)

lemma allImages_deduplicated_untagged:
  "map untagged (allImages_deduplicated r) = map untagged (concat (filtered_groups r))"
proof -
  obtain a b c d e f where g: "filtered_groups r = [a, b, c, d, e, f]"
    using allImages_deduplicated_groups[of r] by blast
  show ?thesis
    by (simp add: allImages_deduplicated_def g untagged_with_category untagged_with_category_format
          comp_def)
qed

text \<open>
  C10. The deduplication returns a subsequence of its input: the surviving items are the
  input items themselves, unchanged and in their input order. This holds for the
  uniqueImages loop, for every call of filterDuplicates whatever the shared set holds,
  and for the six chained calls of the third variant taken together. The maps that follow
  those calls set the category tag (and, for three groups, the format) and nothing else:
  with these two fields put aside, the images of the response are the survivors.
\<close>

theorem dedup_output_is_subsequence:
  "subseq (uniqueImages_of xs) xs
   \<and> subseq (fst (filterDuplicates xs seen)) xs
   \<and> subseq (concat (filtered_groups r)) (concatenation_order r)
   \<and> map untagged (allImages_deduplicated r) = map untagged (concat (filtered_groups r))"
proof (intro conjI)
  show "subseq (uniqueImages_of xs) xs"
    unfolding uniqueImages_of_def by (rule uniqueImages_subseq)
  show "subseq (fst (filterDuplicates xs seen)) xs"
    by (rule filterDuplicates_subseq)
  show "subseq (concat (filtered_groups r)) (concatenation_order r)"
    unfolding filtered_groups_concat by (rule filterDuplicates_subseq)
  show "map untagged (allImages_deduplicated r) = map untagged (concat (filtered_groups r))"
    by (rule allImages_deduplicated_untagged)
qed

theorem dedup_output_is_subsequence_witness:
  "subseq (uniqueImages_of [sample_image ''a'' ''1'', sample_image ''b'' ''2'', sample_image ''a'' ''3''])
          [sample_image ''a'' ''1'', sample_image ''b'' ''2'', sample_image ''a'' ''3'']
   \<and> uniqueImages_of [sample_image ''a'' ''1'', sample_image ''b'' ''2'', sample_image ''a'' ''3'']
        = [sample_image ''a'' ''1'', sample_image ''b'' ''2'']"
  using dedup_output_is_subsequence[of "[sample_image ''a'' ''1'', sample_image ''b'' ''2'', sample_image ''a'' ''3'']"]
  by (simp add: uniqueImages_of_def sample_image_def)

end
